theory Spec2Isabelle
  imports Complex_Main
begin

section \<open>Data model\<close>

text \<open>
  The backend is an Express application over a MongoDB store with a Socket.IO server.
  Each route handler is modelled as a function from the request and the state of the
  store to a response and the new state. The state also records, in order, every
  Socket.IO emission and every HTTP request sent to the Raspberry Pi, so that "nothing
  was broadcast" and "no relay call was made" are statements about the state, and a
  counter from which the \<open>_id\<close> of a new account is taken, so that the id of a deleted
  account is not given again.

  \<open>req.app.get('io')\<close> is the Socket.IO server that \<open>server.js\<close> installs before any
  route is mounted, so the guards \<open>if (io)\<close> of the handlers always pass.

  What is outside the model: the Mongoose-managed \<open>createdAt\<close>/\<open>updatedAt\<close> stamps,
  \<open>lastLogin\<close>, \<open>ipAddress\<close>, the bcrypt hash (a stored password is compared by
  equality), and failures of the store itself other than the ones named below. A
  request is handled in one step, but for the registration, whose awaits are separate
  steps that other registrations may interleave with.
\<close>

datatype role = RoleUser | RoleAdmin | RoleHeadAdmin

datatype status = Active | Banned | Restricted

text \<open>models/User.js: the fields of \<open>UserSchema\<close>.\<close>

record user =
  uid :: nat
  username :: string
  email :: string
  password :: string
  urole :: role
  ustatus :: status
  theme :: string
  isOnline :: bool
  socketId :: "string option"

text \<open>\<open>ThresholdSchema\<close>: nine numeric setpoints and two bookkeeping fields.\<close>

record thresholds =
  soil1 :: rat
  soil2 :: rat
  temp_high :: rat
  temp_low :: rat
  hum_high :: rat
  hum_low :: rat
  npk_n :: rat
  npk_p :: rat
  npk_k :: rat
  lastUpdatedBy :: "nat option"
  lastSyncedWithArduino :: "nat option"

text \<open>
  The \<open>pwm\<close> member of a request body, when it is present. \<open>PwmInt v\<close> is a JSON
  number that JavaScript prints, with \<open>String(pwm)\<close>, as the integer \<open>v\<close>: in plain
  decimal digits when \<open>\<bar>v\<bar> < 10 ^ 21\<close>, and in exponent notation, with a mantissa that
  begins with the leading digit of \<open>v\<close>, from \<open>10 ^ 21\<close> on (\<open>1e+21\<close> for \<open>10 ^ 21\<close>).
  \<open>PwmUnparsable\<close> is a JSON value on which \<open>parseInt\<close> returns \<open>NaN\<close> (null, a
  boolean, a string with no leading digits). Fractions and numeric strings are not
  represented.
\<close>

datatype pwm_value = PwmInt int | PwmUnparsable

datatype jsnum = Num int | NaN

text \<open>The command object posted to the Pi by \<open>/api/manual/control\<close>.\<close>

record command =
  cmd_actuator :: string
  cmd_state :: bool
  cmd_pwm :: "jsnum option"

datatype relay_call =
    BulkThresholds "(string \<times> rat) list"
  | ManualCommand command
  | ResumeAuto

text \<open>\<open>SystemAlertSchema\<close>, and an alert as the Pi submits it.\<close>

record alert =
  level :: string
  message :: string
  source :: string
  acknowledged :: bool
  acknowledgedBy :: "nat option"
  alert_time :: nat

record alert_in =
  in_level :: "string option"
  in_message :: "string option"
  in_timestamp :: "nat option"

datatype details =
    NoDetails
  | RoleDetails role
  | ChangedDetails "(string \<times> rat) list"
  | ManualDetails string bool "pwm_value option"
  | ResumeAutoDetails
  | UsernameDetails string string
  | DeletedDetails string
  | BannedDetails string bool
  | PromotedDetails string
  | DemotedDetails string

record log_entry =
  log_user :: nat
  log_username :: string
  log_action :: string
  log_details :: details

text \<open>
  A Socket.IO emission: \<open>io.emit\<close> goes to every connected socket, \<open>io.to(id).emit\<close> to
  the room named \<open>id\<close>. The application never joins a socket to a room, so the room
  named \<open>id\<close> holds exactly the socket whose id is \<open>id\<close>.
\<close>

datatype target = Everyone | Room string

datatype event_data =
    ThresholdUpdate "(string \<times> rat) list" string
  | ManualControl string bool "pwm_value option" string nat
  | AutoModeResumed string nat
  | SystemAlert alert
  | UserPresence nat string
  | ForceDisconnect string

record event =
  ev_target :: target
  ev_topic :: string
  ev_data :: event_data

record state =
  users :: "user list"
  threshold_doc :: "thresholds option"
  activity_log :: "log_entry list"
  alerts_db :: "alert list"
  emitted :: "event list"
  relayed :: "relay_call list"
  next_id :: nat

text \<open>
  What a request cannot decide by itself: whether the HTTP call to the Pi succeeds (it
  throws on a timeout, a network error or a non-2xx answer), the clock, and whether
  the store accepts a user document written with \<open>User.create\<close> or \<open>save\<close> (schema
  validation and unique indexes; a refusal is thrown and caught by the handler).
\<close>

record env =
  relay_ok :: bool
  now :: nat
  store_ok :: bool

record safe_user =
  s_id :: nat
  s_username :: string
  s_email :: string
  s_role :: role
  s_status :: status
  s_theme :: string
  s_isOnline :: bool

datatype rdata =
    NoData
  | ThresholdsData thresholds
  | UserData safe_user
  | ThemeData string
  | TokenData nat safe_user
  | CountData nat
  | PiData
  | SettingsData string string string role status

text \<open>
  A JSON response: the HTTP status, the \<open>success\<close> flag, the text (under the key
  \<open>message\<close> when \<open>success\<close> is true and under \<open>error\<close> when it is false) and the data.
\<close>

record response =
  rstatus :: nat
  rsuccess :: bool
  rtext :: string
  rdata :: rdata

definition failure :: "nat \<Rightarrow> string \<Rightarrow> response" where
  "failure c t = \<lparr>rstatus = c, rsuccess = False, rtext = t, rdata = NoData\<rparr>"

definition succeed :: "nat \<Rightarrow> string \<Rightarrow> rdata \<Rightarrow> response" where
  "succeed c t d = \<lparr>rstatus = c, rsuccess = True, rtext = t, rdata = d\<rparr>"

section \<open>The store\<close>

definition findById :: "nat \<Rightarrow> user list \<Rightarrow> user option" where
  "findById i us = find (\<lambda>u. uid u = i) us"

text \<open>\<open>doc.save()\<close> and \<open>findByIdAndUpdate\<close>: the modified fields of one document.\<close>

definition update_user :: "nat \<Rightarrow> (user \<Rightarrow> user) \<Rightarrow> user list \<Rightarrow> user list" where
  "update_user i f us = map (\<lambda>u. if uid u = i then f u else u) us"

definition toSafeObject :: "user \<Rightarrow> safe_user" where
  "toSafeObject u = \<lparr>s_id = uid u, s_username = username u, s_email = email u,
     s_role = urole u, s_status = ustatus u, s_theme = theme u, s_isOnline = isOnline u\<rparr>"

definition isAdmin :: "user \<Rightarrow> bool" where
  "isAdmin u = (urole u = RoleAdmin \<or> urole u = RoleHeadAdmin)"

definition isHeadAdmin :: "user \<Rightarrow> bool" where
  "isHeadAdmin u = (urole u = RoleHeadAdmin)"

definition log_activity :: "user \<Rightarrow> string \<Rightarrow> details \<Rightarrow> state \<Rightarrow> state" where
  "log_activity u a d s = s\<lparr>activity_log := activity_log s @
     [\<lparr>log_user = uid u, log_username = username u, log_action = a, log_details = d\<rparr>]\<rparr>"

definition emit :: "target \<Rightarrow> string \<Rightarrow> event_data \<Rightarrow> state \<Rightarrow> state" where
  "emit t n d s = s\<lparr>emitted := emitted s @ [\<lparr>ev_target = t, ev_topic = n, ev_data = d\<rparr>]\<rparr>"

definition post_to_pi :: "relay_call \<Rightarrow> state \<Rightarrow> state" where
  "post_to_pi c s = s\<lparr>relayed := relayed s @ [c]\<rparr>"

text \<open>Which sockets an emission reaches, a socket being known by its id.\<close>

fun delivered_to :: "event \<Rightarrow> string \<Rightarrow> bool" where
  "delivered_to ev sid = (case ev_target ev of Everyone \<Rightarrow> True | Room r \<Rightarrow> r = sid)"

section \<open>middleware/auth.js\<close>

record req =
  req_user :: user
  isRestricted :: bool

text \<open>
  \<open>protect\<close>. The argument is the outcome of \<open>jwt.verify\<close> on the bearer token:
  \<open>None\<close> when the token is missing, malformed or expired, \<open>Some i\<close> when it verifies
  and names the user \<open>i\<close>.
\<close>

definition protect :: "nat option \<Rightarrow> state \<Rightarrow> response + req" where
  "protect token s =
     (case token of
        None \<Rightarrow> Inl (failure 401 ''Not authorized to access this route'')
      | Some i \<Rightarrow>
          (case findById i (users s) of
             None \<Rightarrow> Inl (failure 401 ''User no longer exists'')
           | Some u \<Rightarrow>
               if ustatus u = Banned then Inl (failure 403 ''Your account has been banned'')
               else Inr \<lparr>req_user = u, isRestricted = (ustatus u = Restricted)\<rparr>))"

definition adminOnly :: "req \<Rightarrow> response option" where
  "adminOnly r =
     (if \<not> isAdmin (req_user r)
      then Some (failure 403 ''Access denied. Admin privileges required.'')
      else None)"

definition headAdminOnly :: "req \<Rightarrow> response option" where
  "headAdminOnly r =
     (if \<not> isHeadAdmin (req_user r)
      then Some (failure 403 ''Access denied. Head Admin privileges required.'')
      else None)"

definition allowWrite :: "req \<Rightarrow> response option" where
  "allowWrite r =
     (if isRestricted r
      then Some (failure 403 ''Your account is restricted. You can only view data.'')
      else None)"

text \<open>The answer of \<open>allowWrite\<close> to a restricted account.\<close>

definition restricted_reply :: response where
  "restricted_reply = failure 403 ''Your account is restricted. You can only view data.''"

section \<open>routes/thresholds.js\<close>

definition default_thresholds :: thresholds where
  "default_thresholds = \<lparr>soil1 = 60, soil2 = 60, temp_high = 35, temp_low = 15,
     hum_high = 80, hum_low = 30, npk_n = 20, npk_p = 20, npk_k = 20,
     lastUpdatedBy = None, lastSyncedWithArduino = None\<rparr>"

text \<open>\<open>Threshold.getCurrent\<close>: the singleton, created with the defaults when absent.\<close>

definition getCurrent :: "state \<Rightarrow> thresholds \<times> state" where
  "getCurrent s =
     (case threshold_doc s of
        Some t \<Rightarrow> (t, s)
      | None \<Rightarrow> (default_thresholds, s\<lparr>threshold_doc := Some default_thresholds\<rparr>))"

definition validKeys :: "string list" where
  "validKeys = [''soil1'', ''soil2'', ''temp_high'', ''temp_low'', ''hum_high'', ''hum_low'',
     ''npk_n'', ''npk_p'', ''npk_k'']"

text \<open>\<open>thresholds[key]\<close> and \<open>thresholds[key] = v\<close> for the keys of the schema.\<close>

definition get_field :: "string \<Rightarrow> thresholds \<Rightarrow> rat" where
  "get_field k t =
     (if k = ''soil1'' then soil1 t else if k = ''soil2'' then soil2 t
      else if k = ''temp_high'' then temp_high t else if k = ''temp_low'' then temp_low t
      else if k = ''hum_high'' then hum_high t else if k = ''hum_low'' then hum_low t
      else if k = ''npk_n'' then npk_n t else if k = ''npk_p'' then npk_p t
      else npk_k t)"

definition set_field :: "string \<Rightarrow> rat \<Rightarrow> thresholds \<Rightarrow> thresholds" where
  "set_field k v t =
     (if k = ''soil1'' then t\<lparr>soil1 := v\<rparr> else if k = ''soil2'' then t\<lparr>soil2 := v\<rparr>
      else if k = ''temp_high'' then t\<lparr>temp_high := v\<rparr>
      else if k = ''temp_low'' then t\<lparr>temp_low := v\<rparr>
      else if k = ''hum_high'' then t\<lparr>hum_high := v\<rparr>
      else if k = ''hum_low'' then t\<lparr>hum_low := v\<rparr>
      else if k = ''npk_n'' then t\<lparr>npk_n := v\<rparr> else if k = ''npk_p'' then t\<lparr>npk_p := v\<rparr>
      else t\<lparr>npk_k := v\<rparr>)"

text \<open>
  The loop \<open>for (const key of validKeys)\<close>. The body of the request is a JSON object
  whose members are numbers: a map from member names to values, \<open>None\<close> where
  \<open>updates[key]\<close> is \<open>undefined\<close>. \<open>changed\<close> collects the members applied, in order.
\<close>

fun apply_updates ::
  "(string \<rightharpoonup> rat) \<Rightarrow> string list \<Rightarrow> thresholds \<Rightarrow> (string \<times> rat) list
     \<Rightarrow> thresholds \<times> (string \<times> rat) list" where
  "apply_updates updates [] t changed = (t, changed)"
| "apply_updates updates (key # keys) t changed =
     (case updates key of
        None \<Rightarrow> apply_updates updates keys t changed
      | Some v \<Rightarrow> apply_updates updates keys (set_field key v t) (changed @ [(key, v)]))"

text \<open>\<open>GET /api/thresholds\<close>, behind \<open>protect\<close>.\<close>

definition get_thresholds :: "nat option \<Rightarrow> state \<Rightarrow> response \<times> state" where
  "get_thresholds token s =
     (case protect token s of
        Inl r \<Rightarrow> (r, s)
      | Inr rq \<Rightarrow>
          (let (t, s1) = getCurrent s
           in (succeed 200 [] (ThresholdsData t), s1)))"

text \<open>
  \<open>PUT /api/thresholds\<close>, behind \<open>protect\<close> and \<open>allowWrite\<close>. The document is saved
  before the Pi is called; when the call throws, the inner \<open>catch\<close> only logs to the
  console and the handler goes on.
\<close>

definition put_thresholds_handler ::
  "env \<Rightarrow> req \<Rightarrow> (string \<rightharpoonup> rat) \<Rightarrow> state \<Rightarrow> response \<times> state" where
  "put_thresholds_handler e rq updates s =
     (let (t0, s1) = getCurrent s;
          (t1, changed) = apply_updates updates validKeys t0 [];
          t2 = t1\<lparr>lastUpdatedBy := Some (uid (req_user rq))\<rparr>;
          s2 = s1\<lparr>threshold_doc := Some t2\<rparr>;
          s3 = post_to_pi (BulkThresholds changed) s2;
          t3 = (if relay_ok e then t2\<lparr>lastSyncedWithArduino := Some (now e)\<rparr> else t2);
          s4 = (if relay_ok e then s3\<lparr>threshold_doc := Some t3\<rparr> else s3);
          s5 = log_activity (req_user rq) ''threshold_changed'' (ChangedDetails changed) s4;
          s6 = emit Everyone ''threshold_update''
                 (ThresholdUpdate changed (username (req_user rq))) s5
      in (succeed 200 ''Thresholds updated successfully'' (ThresholdsData t3), s6))"

definition put_thresholds ::
  "env \<Rightarrow> nat option \<Rightarrow> (string \<rightharpoonup> rat) \<Rightarrow> state \<Rightarrow> response \<times> state" where
  "put_thresholds e token updates s =
     (case protect token s of
        Inl r \<Rightarrow> (r, s)
      | Inr rq \<Rightarrow>
          (case allowWrite rq of
             Some r \<Rightarrow> (r, s)
           | None \<Rightarrow> put_thresholds_handler e rq updates s))"

section \<open>routes/manual.js\<close>

record control_body =
  actuator :: "string option"
  state_in :: "bool option"
  pwm :: "pwm_value option"

definition validActuators :: "string list" where
  "validActuators = [''pump_water'', ''pump_nutrient'', ''fan_exhaust'', ''peltier'',
     ''fan_peltier_hot'', ''fan_peltier_cold'']"

definition invalid_actuator :: string where
  "invalid_actuator = ''Invalid actuator. Valid options: pump_water, pump_nutrient, '' @
     ''fan_exhaust, peltier, fan_peltier_hot, fan_peltier_cold''"

text \<open>The first digit of the decimal notation of a number.\<close>

fun leading_digit :: "nat \<Rightarrow> nat" where
  "leading_digit n = (if n < 10 then n else leading_digit (n div 10))"

declare leading_digit.simps [simp del]

text \<open>
  \<open>parseInt(pwm)\<close> converts its argument to a string and reads the sign and the digits
  up to the first character that is not a digit: all of the digits of a number printed
  in plain notation, and the first digit alone of one printed in exponent notation
  (\<open>parseInt(1e21)\<close> is 1).
\<close>

definition parseInt :: "pwm_value \<Rightarrow> jsnum" where
  "parseInt p =
     (case p of
        PwmInt v \<Rightarrow>
          if \<bar>v\<bar> < 10 ^ 21 then Num v
          else if v < 0 then Num (- int (leading_digit (nat (- v))))
          else Num (int (leading_digit (nat v)))
      | PwmUnparsable \<Rightarrow> NaN)"

text \<open>\<open>Math.min(255, x)\<close> and \<open>Math.max(0, x)\<close>: \<open>NaN\<close> when the argument is \<open>NaN\<close>.\<close>

definition min255 :: "jsnum \<Rightarrow> jsnum" where
  "min255 x = (case x of Num v \<Rightarrow> Num (min 255 v) | NaN \<Rightarrow> NaN)"

definition max0 :: "jsnum \<Rightarrow> jsnum" where
  "max0 x = (case x of Num v \<Rightarrow> Num (max 0 v) | NaN \<Rightarrow> NaN)"

text \<open>
  The command built for the Pi: \<open>pwm\<close> is copied, clamped, only when the body has one
  and the actuator is \<open>fan_exhaust\<close> or \<open>peltier\<close>.
\<close>

definition build_command :: "string \<Rightarrow> bool \<Rightarrow> pwm_value option \<Rightarrow> command" where
  "build_command a st p =
     (case p of
        Some v \<Rightarrow>
          if a = ''fan_exhaust'' \<or> a = ''peltier''
          then \<lparr>cmd_actuator = a, cmd_state = st, cmd_pwm = Some (max0 (min255 (parseInt v)))\<rparr>
          else \<lparr>cmd_actuator = a, cmd_state = st, cmd_pwm = None\<rparr>
      | None \<Rightarrow> \<lparr>cmd_actuator = a, cmd_state = st, cmd_pwm = None\<rparr>)"

text \<open>
  \<open>POST /api/manual/control\<close>. The activity log entry and the broadcast are inside the
  \<open>try\<close> whose \<open>catch\<close> answers 503, after the call to the Pi; both carry the \<open>pwm\<close> of
  the request body.
\<close>

definition post_control_handler ::
  "env \<Rightarrow> req \<Rightarrow> control_body \<Rightarrow> state \<Rightarrow> response \<times> state" where
  "post_control_handler e rq body s =
     (case actuator body of
        None \<Rightarrow> (failure 400 invalid_actuator, s)
      | Some a \<Rightarrow>
          if a = [] \<or> a \<notin> set validActuators then (failure 400 invalid_actuator, s)
          else
            (case state_in body of
               None \<Rightarrow> (failure 400 ''State must be true or false'', s)
             | Some st \<Rightarrow>
                 (let s1 = post_to_pi (ManualCommand (build_command a st (pwm body))) s
                  in if \<not> relay_ok e
                     then (failure 503 ''Failed to communicate with greenhouse controller'', s1)
                     else
                       (let s2 = log_activity (req_user rq) ''manual_control''
                                   (ManualDetails a st (pwm body)) s1;
                            s3 = emit Everyone ''manual_control''
                                   (ManualControl a st (pwm body) (username (req_user rq)) (now e))
                                   s2
                        in (succeed 200
                              (a @ '' '' @ (if st then ''turned ON'' else ''turned OFF''))
                              PiData, s3)))))"

definition post_control ::
  "env \<Rightarrow> nat option \<Rightarrow> control_body \<Rightarrow> state \<Rightarrow> response \<times> state" where
  "post_control e token body s =
     (case protect token s of
        Inl r \<Rightarrow> (r, s)
      | Inr rq \<Rightarrow>
          (case allowWrite rq of
             Some r \<Rightarrow> (r, s)
           | None \<Rightarrow> post_control_handler e rq body s))"

text \<open>\<open>POST /api/manual/auto\<close>.\<close>

definition post_auto_handler :: "env \<Rightarrow> req \<Rightarrow> state \<Rightarrow> response \<times> state" where
  "post_auto_handler e rq s =
     (let s1 = post_to_pi ResumeAuto s
      in if \<not> relay_ok e
         then (failure 503 ''Failed to communicate with greenhouse controller'', s1)
         else
           (let s2 = log_activity (req_user rq) ''manual_control'' ResumeAutoDetails s1;
                s3 = emit Everyone ''auto_mode_resumed''
                       (AutoModeResumed (username (req_user rq)) (now e)) s2
            in (succeed 200 ''Automatic mode resumed'' PiData, s3)))"

definition post_auto :: "env \<Rightarrow> nat option \<Rightarrow> state \<Rightarrow> response \<times> state" where
  "post_auto e token s =
     (case protect token s of
        Inl r \<Rightarrow> (r, s)
      | Inr rq \<Rightarrow>
          (case allowWrite rq of
             Some r \<Rightarrow> (r, s)
           | None \<Rightarrow> post_auto_handler e rq s))"

section \<open>routes/settings.js\<close>

definition is_space :: "char \<Rightarrow> bool" where
  "is_space c = (c \<in> set [CHR '' '', CHR 0x09, CHR 0x0A, CHR 0x0B, CHR 0x0C, CHR 0x0D])"

text \<open>The \<open>trim: true\<close> setter of the schema.\<close>

definition trim :: "string \<Rightarrow> string" where
  "trim x = rev (dropWhile is_space (rev (dropWhile is_space x)))"

text \<open>
  \<open>PUT /api/settings/username\<close>, behind \<open>protect\<close> and \<open>allowWrite\<close>. Mongoose
  applies the setters of the schema to the values of a query, so \<open>findOne\<close> looks for
  the trimmed name. \<open>save\<close> throws, and the outer \<open>catch\<close> answers 500, when the store
  refuses the document.
\<close>

definition put_username_handler ::
  "env \<Rightarrow> req \<Rightarrow> string option \<Rightarrow> state \<Rightarrow> response \<times> state" where
  "put_username_handler e rq newUsername s =
     (case newUsername of
        None \<Rightarrow> (failure 400 ''New username required'', s)
      | Some n \<Rightarrow>
          if n = [] then (failure 400 ''New username required'', s)
          else if \<exists>u \<in> set (users s). username u = trim n \<and> uid u \<noteq> uid (req_user rq)
          then (failure 400 ''Username already taken'', s)
          else if \<not> store_ok e then (failure 500 ''Server error'', s)
          else
            (let u1 = (req_user rq)\<lparr>username := trim n\<rparr>;
                 s1 = s\<lparr>users := update_user (uid u1) (\<lambda>u. u\<lparr>username := trim n\<rparr>) (users s)\<rparr>;
                 s2 = s1\<lparr>activity_log := activity_log s1 @
                        [\<lparr>log_user = uid u1, log_username = n,
                          log_action = ''password_changed'',
                          log_details = UsernameDetails (username (req_user rq)) n\<rparr>]\<rparr>
             in (succeed 200 ''Username updated successfully'' (UserData (toSafeObject u1)), s2)))"

definition put_username ::
  "env \<Rightarrow> nat option \<Rightarrow> string option \<Rightarrow> state \<Rightarrow> response \<times> state" where
  "put_username e token newUsername s =
     (case protect token s of
        Inl r \<Rightarrow> (r, s)
      | Inr rq \<Rightarrow>
          (case allowWrite rq of
             Some r \<Rightarrow> (r, s)
           | None \<Rightarrow> put_username_handler e rq newUsername s))"

text \<open>\<open>PUT /api/settings/theme\<close>, behind \<open>protect\<close> alone.\<close>

definition put_theme :: "nat option \<Rightarrow> string option \<Rightarrow> state \<Rightarrow> response \<times> state" where
  "put_theme token th s =
     (case protect token s of
        Inl r \<Rightarrow> (r, s)
      | Inr rq \<Rightarrow>
          (case th of
             None \<Rightarrow> (failure 400 ''Invalid theme. Choose: light, dark, or auto'', s)
           | Some t \<Rightarrow>
               if t \<notin> set [''light'', ''dark'', ''auto'']
               then (failure 400 ''Invalid theme. Choose: light, dark, or auto'', s)
               else (succeed 200 ''Theme updated successfully'' (ThemeData t),
                     s\<lparr>users := update_user (uid (req_user rq)) (\<lambda>u. u\<lparr>theme := t\<rparr>) (users s)\<rparr>)))"

text \<open>\<open>GET /api/settings\<close>.\<close>

definition get_settings :: "nat option \<Rightarrow> state \<Rightarrow> response \<times> state" where
  "get_settings token s =
     (case protect token s of
        Inl r \<Rightarrow> (r, s)
      | Inr rq \<Rightarrow>
          (let u = req_user rq
           in (succeed 200 []
                 (SettingsData (username u) (email u) (theme u) (urole u) (ustatus u)), s)))"

section \<open>routes/auth.js\<close>

text \<open>\<open>GET /api/auth/me\<close>.\<close>

definition get_me :: "nat option \<Rightarrow> state \<Rightarrow> response \<times> state" where
  "get_me token s =
     (case protect token s of
        Inl r \<Rightarrow> (r, s)
      | Inr rq \<Rightarrow> (succeed 200 [] (UserData (toSafeObject (req_user rq))), s))"

text \<open>\<open>PUT /api/auth/change-password\<close>, behind \<open>protect\<close> and \<open>allowWrite\<close>.\<close>

definition change_password_handler ::
  "env \<Rightarrow> req \<Rightarrow> string option \<Rightarrow> string option \<Rightarrow> state \<Rightarrow> response \<times> state" where
  "change_password_handler e rq currentPassword newPassword s =
     (case (currentPassword, newPassword) of
        (Some c, Some n) \<Rightarrow>
          if c = [] \<or> n = []
          then (failure 400 ''Current password and new password required'', s)
          else
            (case findById (uid (req_user rq)) (users s) of
               None \<Rightarrow> (failure 500 ''Server error'', s)
             | Some u \<Rightarrow>
                 if password u \<noteq> c then (failure 401 ''Current password is incorrect'', s)
                 else if \<not> store_ok e then (failure 500 ''Server error'', s)
                 else
                   (let s1 = s\<lparr>users := update_user (uid u) (\<lambda>x. x\<lparr>password := n\<rparr>) (users s)\<rparr>;
                        s2 = log_activity u ''password_changed'' NoDetails s1
                    in (succeed 200 ''Password changed successfully'' NoData, s2)))
      | _ \<Rightarrow> (failure 400 ''Current password and new password required'', s))"

definition change_password ::
  "env \<Rightarrow> nat option \<Rightarrow> string option \<Rightarrow> string option \<Rightarrow> state \<Rightarrow> response \<times> state" where
  "change_password e token currentPassword newPassword s =
     (case protect token s of
        Inl r \<Rightarrow> (r, s)
      | Inr rq \<Rightarrow>
          (case allowWrite rq of
             Some r \<Rightarrow> (r, s)
           | None \<Rightarrow> change_password_handler e rq currentPassword newPassword s))"

text \<open>The \<open>lowercase: true\<close> setter of the schema, on ASCII letters.\<close>

definition lowercase :: "string \<Rightarrow> string" where
  "lowercase x =
     map (\<lambda>c. if 65 \<le> (of_char c :: nat) \<and> (of_char c :: nat) \<le> 90
              then char_of ((of_char c :: nat) + 32) else c) x"

record reg_body =
  reg_username :: "string option"
  reg_email :: "string option"
  reg_password :: "string option"

text \<open>
  The \<open>_id\<close> the store gives a new document: one that no document has and that was
  never given before.
\<close>

definition fresh_id :: "state \<Rightarrow> nat" where
  "fresh_id s = max (next_id s) (Suc (foldr max (map uid (users s)) 0))"

text \<open>\<open>userCount === 0 ? 'head_admin' : 'user'\<close>.\<close>

definition register_role :: "user list \<Rightarrow> role" where
  "register_role us = (if length us = 0 then RoleHeadAdmin else RoleUser)"

text \<open>
  \<open>POST /api/auth/register\<close>, public. The handler awaits the store four times
  (\<open>findOne\<close>, \<open>countDocuments\<close>, \<open>User.create\<close>, \<open>ActivityLog.create\<close>), and other
  requests may be served between two of them; each of the four is a function of the
  state at the moment it runs.

  \<open>reg_check\<close>: the validation of the body and \<open>findOne\<close>, on the values as the
  setters of the schema make them.
\<close>

definition reg_check :: "reg_body \<Rightarrow> state \<Rightarrow> response + (string \<times> string \<times> string)" where
  "reg_check body s =
     (case (reg_username body, reg_email body, reg_password body) of
        (Some un, Some em, Some pw) \<Rightarrow>
          if un = [] \<or> em = [] \<or> pw = []
          then Inl (failure 400 ''Please provide username, email, and password'')
          else if \<exists>u \<in> set (users s). email u = trim (lowercase em) \<or> username u = trim un
          then Inl (failure 400 ''User with this email or username already exists'')
          else Inr (un, em, pw)
      | _ \<Rightarrow> Inl (failure 400 ''Please provide username, email, and password''))"

text \<open>
  \<open>reg_create\<close>: \<open>User.create\<close>. It throws, and the \<open>catch\<close> answers 500, when the
  validators refuse the document or a unique index (username, email) finds its value
  in the store.
\<close>

definition reg_create ::
  "env \<Rightarrow> string \<Rightarrow> string \<Rightarrow> string \<Rightarrow> role \<Rightarrow> state \<Rightarrow> response + (user \<times> state)" where
  "reg_create e un em pw r s =
     (if \<not> store_ok e
         \<or> (\<exists>u \<in> set (users s). email u = trim (lowercase em) \<or> username u = trim un)
      then Inl (failure 500 ''Server error during registration'')
      else
        (let u = \<lparr>uid = fresh_id s, username = trim un, email = trim (lowercase em),
                  password = pw, urole = r, ustatus = Active, theme = ''light'',
                  isOnline = False, socketId = None\<rparr>
         in Inr (u, s\<lparr>users := users s @ [u], next_id := Suc (fresh_id s)\<rparr>)))"

text \<open>
  \<open>reg_answer\<close>: the activity log entry and \<open>sendTokenResponse\<close>. A valid token for the
  new user is its id.
\<close>

definition reg_answer :: "user \<Rightarrow> role \<Rightarrow> state \<Rightarrow> response \<times> state" where
  "reg_answer u r s =
     (succeed 201
        (''Account created successfully. '' @
         (if r = RoleHeadAdmin then ''You are the Head Admin!'' else ''Welcome!''))
        (TokenData (uid u) (toSafeObject u)),
      log_activity u ''user_created'' (RoleDetails r) s)"

text \<open>A registration served with no other request in between.\<close>

definition register :: "env \<Rightarrow> reg_body \<Rightarrow> state \<Rightarrow> response \<times> state" where
  "register e body s =
     (case reg_check body s of
        Inl resp \<Rightarrow> (resp, s)
      | Inr (un, em, pw) \<Rightarrow>
          (let r = register_role (users s)
           in case reg_create e un em pw r s of
                Inl resp \<Rightarrow> (resp, s)
              | Inr (u, s1) \<Rightarrow> reg_answer u r s1))"

text \<open>
  A registration in flight: received, past \<open>findOne\<close>, past \<open>countDocuments\<close> with the
  role chosen, past \<open>User.create\<close>, or answered. \<open>reg_step\<close> takes it to its next await.
\<close>

datatype reg_task =
    Received reg_body
  | Checked string string string
  | Counted string string string role
  | Created user role
  | Answered response

definition reg_step :: "env \<Rightarrow> reg_task \<Rightarrow> state \<Rightarrow> reg_task \<times> state" where
  "reg_step e t s =
     (case t of
        Received body \<Rightarrow>
          (case reg_check body s of
             Inl resp \<Rightarrow> (Answered resp, s)
           | Inr (un, em, pw) \<Rightarrow> (Checked un em pw, s))
      | Checked un em pw \<Rightarrow> (Counted un em pw (register_role (users s)), s)
      | Counted un em pw r \<Rightarrow>
          (case reg_create e un em pw r s of
             Inl resp \<Rightarrow> (Answered resp, s)
           | Inr (u, s1) \<Rightarrow> (Created u r, s1))
      | Created u r \<Rightarrow> (case reg_answer u r s of (resp, s1) \<Rightarrow> (Answered resp, s1))
      | Answered resp \<Rightarrow> (Answered resp, s))"

text \<open>
  Registrations in flight together. A schedule names, step after step, the registration
  that the event loop resumes.
\<close>

fun resume :: "nat \<Rightarrow> (env \<times> reg_task) list \<Rightarrow> state \<Rightarrow> (env \<times> reg_task) list \<times> state" where
  "resume k [] s = ([], s)"
| "resume 0 ((e, t) # rest) s = (case reg_step e t s of (t1, s1) \<Rightarrow> ((e, t1) # rest, s1))"
| "resume (Suc k) (x # rest) s = (case resume k rest s of (rest1, s1) \<Rightarrow> (x # rest1, s1))"

fun run_schedule ::
  "nat list \<Rightarrow> (env \<times> reg_task) list \<Rightarrow> state \<Rightarrow> (env \<times> reg_task) list \<times> state" where
  "run_schedule [] pool s = (pool, s)"
| "run_schedule (k # ks) pool s =
     (case resume k pool s of (pool1, s1) \<Rightarrow> run_schedule ks pool1 s1)"

text \<open>Whether a response of \<open>register\<close> reports an account created as head admin.\<close>

definition created_head_admin :: "response \<Rightarrow> bool" where
  "created_head_admin r =
     (rstatus r = 201 \<and>
      (case rdata r of TokenData i u \<Rightarrow> s_role u = RoleHeadAdmin | _ \<Rightarrow> False))"


section \<open>routes/admin.js\<close>

text \<open>\<open>router.use(protect, adminOnly)\<close>.\<close>

definition admin_gate :: "nat option \<Rightarrow> state \<Rightarrow> response + req" where
  "admin_gate token s =
     (case protect token s of
        Inl r \<Rightarrow> Inl r
      | Inr rq \<Rightarrow> (case adminOnly rq of Some r \<Rightarrow> Inl r | None \<Rightarrow> Inr rq))"

text \<open>\<open>DELETE /api/admin/users/:id\<close>.\<close>

definition delete_user :: "nat option \<Rightarrow> nat \<Rightarrow> state \<Rightarrow> response \<times> state" where
  "delete_user token i s =
     (case admin_gate token s of
        Inl r \<Rightarrow> (r, s)
      | Inr rq \<Rightarrow>
          (case findById i (users s) of
             None \<Rightarrow> (failure 404 ''User not found'', s)
           | Some userToDelete \<Rightarrow>
               if urole userToDelete = RoleHeadAdmin
               then (failure 403 ''Cannot delete head admin'', s)
               else if urole userToDelete = RoleAdmin \<and> urole (req_user rq) \<noteq> RoleHeadAdmin
               then (failure 403 ''Only head admin can delete other admins'', s)
               else
                 (let s1 = s\<lparr>users := filter (\<lambda>u. uid u \<noteq> uid userToDelete) (users s)\<rparr>;
                      s2 = log_activity (req_user rq) ''user_deleted''
                             (DeletedDetails (username userToDelete)) s1
                  in (succeed 200 (''User '' @ username userToDelete @ '' deleted successfully'')
                        NoData, s2))))"

text \<open>
  \<open>PUT /api/admin/users/:id/ban\<close>. \<open>banned\<close> is the truth value of the member of the
  body. \<open>user.socketId\<close> is truthy when it is a non-empty string.
\<close>

definition ban_user :: "nat option \<Rightarrow> nat \<Rightarrow> bool \<Rightarrow> state \<Rightarrow> response \<times> state" where
  "ban_user token i banned s =
     (case admin_gate token s of
        Inl r \<Rightarrow> (r, s)
      | Inr rq \<Rightarrow>
          (case findById i (users s) of
             None \<Rightarrow> (failure 404 ''User not found'', s)
           | Some u \<Rightarrow>
               if urole u = RoleHeadAdmin \<or> urole u = RoleAdmin
               then (failure 403 ''Cannot ban administrators'', s)
               else
                 (let st = (if banned then Banned else Active);
                      u1 = u\<lparr>ustatus := st\<rparr>;
                      s1 = s\<lparr>users := update_user (uid u) (\<lambda>x. x\<lparr>ustatus := st\<rparr>) (users s)\<rparr>;
                      s2 = log_activity (req_user rq) ''user_banned'' (BannedDetails (username u) banned) s1;
                      s3 = (if banned \<and> isOnline u
                            then (case socketId u of
                                    None \<Rightarrow> s2
                                  | Some sid \<Rightarrow>
                                      if sid = [] then s2
                                      else emit (Room sid) ''force_disconnect''
                                             (ForceDisconnect ''Your account has been banned'') s2)
                            else s2)
                  in (succeed 200
                        (''User '' @ (if banned then ''banned'' else ''unbanned'') @ '' successfully'')
                        (UserData (toSafeObject u1)), s3))))"

text \<open>\<open>PUT /api/admin/users/:id/restrict\<close>.\<close>

definition restrict_user :: "nat option \<Rightarrow> nat \<Rightarrow> bool \<Rightarrow> state \<Rightarrow> response \<times> state" where
  "restrict_user token i restricted s =
     (case admin_gate token s of
        Inl r \<Rightarrow> (r, s)
      | Inr rq \<Rightarrow>
          (case findById i (users s) of
             None \<Rightarrow> (failure 404 ''User not found'', s)
           | Some u \<Rightarrow>
               if urole u = RoleHeadAdmin \<or> urole u = RoleAdmin
               then (failure 403 ''Cannot restrict administrators'', s)
               else
                 (let st = (if restricted then Restricted else Active);
                      u1 = u\<lparr>ustatus := st\<rparr>;
                      s1 = s\<lparr>users := update_user (uid u) (\<lambda>x. x\<lparr>ustatus := st\<rparr>) (users s)\<rparr>
                  in (succeed 200
                        (''User '' @ (if restricted then ''restricted'' else ''unrestricted'') @
                         '' successfully'')
                        (UserData (toSafeObject u1)), s1))))"

text \<open>\<open>PUT /api/admin/users/:id/demote\<close>, behind \<open>headAdminOnly\<close> as well.\<close>

definition demote_user :: "nat option \<Rightarrow> nat \<Rightarrow> state \<Rightarrow> response \<times> state" where
  "demote_user token i s =
     (case admin_gate token s of
        Inl r \<Rightarrow> (r, s)
      | Inr rq \<Rightarrow>
          (case headAdminOnly rq of
             Some r \<Rightarrow> (r, s)
           | None \<Rightarrow>
               (case findById i (users s) of
                  None \<Rightarrow> (failure 404 ''User not found'', s)
                | Some u \<Rightarrow>
                    if urole u = RoleHeadAdmin then (failure 403 ''Cannot demote head admin'', s)
                    else if urole u = RoleUser
                    then (failure 400 ''User is already a regular user'', s)
                    else
                      (let u1 = u\<lparr>urole := RoleUser\<rparr>;
                           s1 = s\<lparr>users := update_user (uid u) (\<lambda>x. x\<lparr>urole := RoleUser\<rparr>)
                                             (users s)\<rparr>;
                           s2 = log_activity (req_user rq) ''user_demoted''
                                  (DemotedDetails (username u)) s1
                       in (succeed 200 (username u @ '' demoted to regular user'')
                             (UserData (toSafeObject u1)), s2)))))"

datatype admin_op = Delete | Ban bool | Restrict bool | Demote

definition admin_action :: "admin_op \<Rightarrow> nat option \<Rightarrow> nat \<Rightarrow> state \<Rightarrow> response \<times> state" where
  "admin_action op token i s =
     (case op of
        Delete \<Rightarrow> delete_user token i s
      | Ban b \<Rightarrow> ban_user token i b s
      | Restrict b \<Rightarrow> restrict_user token i b s
      | Demote \<Rightarrow> demote_user token i s)"

text \<open>
  The requests that add or remove accounts, and a run of them, one after the other, with
  the responses in order. No other handler changes the number of accounts.
\<close>

datatype call = Register env reg_body | AdminCall admin_op "nat option" nat

fun run_call :: "call \<Rightarrow> state \<Rightarrow> response \<times> state" where
  "run_call (Register e b) s = register e b s"
| "run_call (AdminCall op tok i) s = admin_action op tok i s"

fun run_calls :: "call list \<Rightarrow> state \<Rightarrow> response list \<times> state" where
  "run_calls [] s = ([], s)"
| "run_calls (c # rest) s =
     (let (r, s1) = run_call c s;
          (rs, s2) = run_calls rest s1
      in (r # rs, s2))"

section \<open>server.js: Socket.IO\<close>

record socket =
  sock_id :: string
  sock_userId :: nat
  sock_username :: string
  sock_role :: role

text \<open>
  The token of a handshake: none at all, one that \<open>jwt.verify\<close> refuses (it throws), or
  one that verifies and names a user.
\<close>

datatype handshake = NoToken | BadToken | GoodToken nat

text \<open>
  The \<open>io.use\<close> middleware: the socket the server has opened under the id \<open>sid\<close> is
  accepted, with the identity of the token attached, or refused with an error.
\<close>

definition io_use :: "handshake \<Rightarrow> string \<Rightarrow> state \<Rightarrow> string + socket" where
  "io_use token sid s =
     (case token of
        NoToken \<Rightarrow> Inl ''Authentication required''
      | BadToken \<Rightarrow> Inl ''Authentication failed''
      | GoodToken i \<Rightarrow>
          (case findById i (users s) of
             None \<Rightarrow> Inl ''User not found''
           | Some u \<Rightarrow>
               if ustatus u = Banned then Inl ''Account banned''
               else Inr \<lparr>sock_id = sid, sock_userId = uid u, sock_username = username u,
                         sock_role = urole u\<rparr>))"

text \<open>\<open>io.on('connection')\<close>.\<close>

definition on_connection :: "socket \<Rightarrow> state \<Rightarrow> state" where
  "on_connection sock s =
     (let s1 = s\<lparr>users := update_user (sock_userId sock)
                            (\<lambda>u. u\<lparr>isOnline := True, socketId := Some (sock_id sock)\<rparr>) (users s)\<rparr>
      in emit Everyone ''user_online'' (UserPresence (sock_userId sock) (sock_username sock)) s1)"

text \<open>\<open>socket.on('disconnect')\<close>.\<close>

definition on_disconnect :: "socket \<Rightarrow> state \<Rightarrow> state" where
  "on_disconnect sock s =
     (let s1 = s\<lparr>users := update_user (sock_userId sock)
                            (\<lambda>u. u\<lparr>isOnline := False, socketId := None\<rparr>) (users s)\<rparr>
      in emit Everyone ''user_offline'' (UserPresence (sock_userId sock) (sock_username sock)) s1)"

text \<open>A client connecting with a token: the middleware, then the connection handler.\<close>

definition client_connect :: "handshake \<Rightarrow> string \<Rightarrow> state \<Rightarrow> socket option \<times> state" where
  "client_connect token sid s =
     (case io_use token sid s of
        Inl err \<Rightarrow> (None, s)
      | Inr sock \<Rightarrow> (Some sock, on_connection sock s))"

text \<open>The socket that \<open>io_use\<close> builds for a user on the connection \<open>sid\<close>.\<close>

definition user_sock :: "user \<Rightarrow> string \<Rightarrow> socket" where
  "user_sock u sid = \<lparr>sock_id = sid, sock_userId = uid u, sock_username = username u,
     sock_role = urole u\<rparr>"

section \<open>routes/pi.js\<close>

text \<open>
  \<open>piAuth\<close>: the key of the request (header or query) against \<open>process.env.PI_API_KEY\<close>,
  which is \<open>None\<close> when the variable is not set.
\<close>

definition piAuth :: "string option \<Rightarrow> string option \<Rightarrow> response option" where
  "piAuth configured apiKey =
     (case apiKey of
        None \<Rightarrow> Some (failure 401 ''API key required'')
      | Some k \<Rightarrow>
          if k = [] then Some (failure 401 ''API key required'')
          else if Some k \<noteq> configured then Some (failure 403 ''Invalid API key'')
          else None)"

definition level_enum :: "string list" where
  "level_enum = [''INFO'', ''WARNING'', ''ERROR'', ''CRITICAL'']"

text \<open>
  The validators of \<open>SystemAlertSchema\<close> on a submitted alert: \<open>level\<close> is required and
  in the enum, \<open>message\<close> is required.
\<close>

definition valid_alert :: "alert_in \<Rightarrow> bool" where
  "valid_alert a =
     ((case in_level a of None \<Rightarrow> False | Some l \<Rightarrow> l \<in> set level_enum) \<and>
      (case in_message a of None \<Rightarrow> False | Some m \<Rightarrow> m \<noteq> []))"

text \<open>The document built from a submitted alert: \<open>{...a, source: 'pi', timestamp: ...}\<close>.\<close>

definition to_alert :: "nat \<Rightarrow> alert_in \<Rightarrow> alert" where
  "to_alert t a =
     \<lparr>level = (case in_level a of Some l \<Rightarrow> l | None \<Rightarrow> []),
      message = (case in_message a of Some m \<Rightarrow> m | None \<Rightarrow> []),
      source = ''pi'', acknowledged = False, acknowledgedBy = None,
      alert_time = (case in_timestamp a of
                      None \<Rightarrow> t
                    | Some ts \<Rightarrow> if ts = 0 then t else ts)\<rparr>"

text \<open>The \<open>forEach\<close> over the inserted alerts.\<close>

fun broadcast_alerts :: "alert list \<Rightarrow> state \<Rightarrow> state" where
  "broadcast_alerts [] s = s"
| "broadcast_alerts (a # rest) s =
     (if level a = ''CRITICAL'' \<or> level a = ''ERROR''
      then broadcast_alerts rest (emit Everyone ''system_alert'' (SystemAlert a) s)
      else broadcast_alerts rest s)"

text \<open>
  \<open>POST /api/pi/alerts\<close>. \<open>insertMany\<close> validates every document before it writes any;
  when one is refused it throws and the \<open>catch\<close> answers 500.
\<close>

definition post_alerts ::
  "env \<Rightarrow> string option \<Rightarrow> string option \<Rightarrow> alert_in list option \<Rightarrow> state
     \<Rightarrow> response \<times> state" where
  "post_alerts e configured apiKey alerts s =
     (case piAuth configured apiKey of
        Some r \<Rightarrow> (r, s)
      | None \<Rightarrow>
          (case alerts of
             None \<Rightarrow> (failure 400 ''Alerts array required'', s)
           | Some as \<Rightarrow>
               if \<not> list_all valid_alert as then (failure 500 ''Failed to save alerts'', s)
               else
                 (let inserted = map (to_alert (now e)) as;
                      s1 = s\<lparr>alerts_db := alerts_db s @ inserted\<rparr>;
                      s2 = broadcast_alerts inserted s1
                  in (succeed 200 [] (CountData (length inserted)), s2))))"

text \<open>The emission of \<open>ban_user\<close> to the room of one socket.\<close>

definition force_disconnect_to :: "string \<Rightarrow> event" where
  "force_disconnect_to sid = \<lparr>ev_target = Room sid, ev_topic = ''force_disconnect'',
     ev_data = ForceDisconnect ''Your account has been banned''\<rparr>"

text \<open>The document the handler leaves in the store.\<close>

definition saved_doc :: "env \<Rightarrow> nat \<Rightarrow> (string \<rightharpoonup> rat) \<Rightarrow> state \<Rightarrow> thresholds" where
  "saved_doc e i updates s =
     (let t2 = (fst (apply_updates updates validKeys (fst (getCurrent s)) []))
                \<lparr>lastUpdatedBy := Some i\<rparr>
      in if relay_ok e then t2\<lparr>lastSyncedWithArduino := Some (now e)\<rparr> else t2)"

text \<open>The answer of the manual routes when the call to the Pi throws.\<close>

definition pi_unreachable :: response where
  "pi_unreachable = failure 503 ''Failed to communicate with greenhouse controller''"

text \<open>The broadcast of \<open>post_control_handler\<close>.\<close>

definition manual_control_event ::
  "string \<Rightarrow> bool \<Rightarrow> pwm_value option \<Rightarrow> string \<Rightarrow> nat \<Rightarrow> event" where
  "manual_control_event a st p who t = \<lparr>ev_target = Everyone, ev_topic = ''manual_control'',
     ev_data = ManualControl a st p who t\<rparr>"

text \<open>The clamp of the specification, \<open>clamp(v, 0, 255)\<close>, on integers.\<close>

definition clamp_pwm :: "int \<Rightarrow> int" where
  "clamp_pwm v = max 0 (min 255 v)"

text \<open>The levels that the \<open>forEach\<close> broadcasts, and the event it emits.\<close>

definition is_broadcast_level :: "alert \<Rightarrow> bool" where
  "is_broadcast_level a = (level a = ''ERROR'' \<or> level a = ''CRITICAL'')"

definition system_alert_event :: "alert \<Rightarrow> event" where
  "system_alert_event a =
     \<lparr>ev_target = Everyone, ev_topic = ''system_alert'', ev_data = SystemAlert a\<rparr>"

text \<open>The alerts a request has added to the store, and the events it has emitted.\<close>

definition stored_by :: "state \<Rightarrow> state \<Rightarrow> alert list" where
  "stored_by s s' = drop (length (alerts_db s)) (alerts_db s')"

definition emitted_by :: "state \<Rightarrow> state \<Rightarrow> event list" where
  "emitted_by s s' = drop (length (emitted s)) (emitted s')"

section \<open>An example installation\<close>

text \<open>
  A head admin, a restricted user, an active user who is online on the socket
  \<open>sock-carol\<close>, and a plain admin; the thresholds were last synchronised at time 5.
\<close>

definition alice :: user where
  "alice = \<lparr>uid = 1, username = ''alice'', email = ''alice@farm.io'', password = ''secret1'',
     urole = RoleHeadAdmin, ustatus = Active, theme = ''light'', isOnline = False,
     socketId = None\<rparr>"

definition bob :: user where
  "bob = \<lparr>uid = 2, username = ''bob'', email = ''bob@farm.io'', password = ''secret2'',
     urole = RoleUser, ustatus = Restricted, theme = ''light'', isOnline = False,
     socketId = None\<rparr>"

definition carol :: user where
  "carol = \<lparr>uid = 3, username = ''carol'', email = ''carol@farm.io'', password = ''secret3'',
     urole = RoleUser, ustatus = Active, theme = ''light'', isOnline = True,
     socketId = Some ''sock-carol''\<rparr>"

definition dave :: user where
  "dave = \<lparr>uid = 4, username = ''dave'', email = ''dave@farm.io'', password = ''secret4'',
     urole = RoleAdmin, ustatus = Active, theme = ''light'', isOnline = False,
     socketId = None\<rparr>"

definition farm :: state where
  "farm = \<lparr>users = [alice, bob, carol, dave],
     threshold_doc = Some (default_thresholds\<lparr>lastSyncedWithArduino := Some 5\<rparr>),
     activity_log = [], alerts_db = [], emitted = [], relayed = [], next_id = 5\<rparr>"

definition empty_store :: state where
  "empty_store = \<lparr>users = [], threshold_doc = None, activity_log = [], alerts_db = [],
     emitted = [], relayed = [], next_id = 1\<rparr>"

definition pi_up :: env where
  "pi_up = \<lparr>relay_ok = True, now = 100, store_ok = True\<rparr>"

definition pi_down :: env where
  "pi_down = \<lparr>relay_ok = False, now = 100, store_ok = True\<rparr>"

definition sample_alerts :: "alert_in list" where
  "sample_alerts =
     [\<lparr>in_level = Some ''INFO'', in_message = Some ''boot'', in_timestamp = Some 7\<rparr>,
      \<lparr>in_level = Some ''CRITICAL'', in_message = Some ''pump stuck'', in_timestamp = None\<rparr>,
      \<lparr>in_level = Some ''WARNING'', in_message = Some ''low water'', in_timestamp = Some 8\<rparr>,
      \<lparr>in_level = Some ''ERROR'', in_message = Some ''sensor lost'', in_timestamp = Some 9\<rparr>]"

definition eve_body :: reg_body where
  "eve_body = \<lparr>reg_username = Some ''eve'', reg_email = Some ''eve@farm.io'',
     reg_password = Some ''secret5''\<rparr>"

definition frank_body :: reg_body where
  "frank_body = \<lparr>reg_username = Some ''frank'', reg_email = Some ''frank@farm.io'',
     reg_password = Some ''secret6''\<rparr>"

section \<open>Lookups in the store\<close>

lemma protect_found:
  "findById i (users s) = Some u \<Longrightarrow> ustatus u \<noteq> Banned \<Longrightarrow>
   protect (Some i) s = Inr \<lparr>req_user = u, isRestricted = (ustatus u = Restricted)\<rparr>"
  by (simp add: protect_def)

lemma protect_banned:
  "findById i (users s) = Some u \<Longrightarrow> ustatus u = Banned \<Longrightarrow>
   protect (Some i) s = Inl (failure 403 ''Your account has been banned'')"
  by (simp add: protect_def)

lemma findById_uid: "findById i us = Some u \<Longrightarrow> uid u = i"
  by (auto simp: findById_def dest: find_Some_iff[THEN iffD1])

lemma findById_update_user:
  "(\<And>u. uid (f u) = uid u) \<Longrightarrow>
   findById i (update_user j f us) =
     (if i = j then map_option f (findById i us) else findById i us)"
  by (induction us) (auto simp: findById_def update_user_def)

lemma farm_bob: "findById 2 (users farm) = Some bob \<and> ustatus bob = Restricted"
  by (simp add: findById_def farm_def alice_def bob_def)

section \<open>Restricted accounts\<close>

text \<open>
  C1 (as amended). For an authenticated account whose status is \<open>restricted\<close>, the
  threshold update, the actuator command, the resumption of automatic mode, the change
  of username and the change of password are all refused with 403 and leave the state as
  it was, whatever the request carries; the reads (thresholds, settings, own profile) are
  answered with 200. The change of theme is not in the list: its route is mounted
  without \<open>allowWrite\<close>.
\<close>

theorem restricted_gate:
  assumes "findById i (users s) = Some u" and "ustatus u = Restricted"
  shows "put_thresholds e (Some i) updates s = (restricted_reply, s)
       \<and> post_control e (Some i) body s = (restricted_reply, s)
       \<and> post_auto e (Some i) s = (restricted_reply, s)
       \<and> put_username e (Some i) newUsername s = (restricted_reply, s)
       \<and> change_password e (Some i) cur new s = (restricted_reply, s)
       \<and> rstatus restricted_reply = 403
       \<and> rstatus (fst (get_thresholds (Some i) s)) = 200
       \<and> rsuccess (fst (get_thresholds (Some i) s))
       \<and> rstatus (fst (get_settings (Some i) s)) = 200
       \<and> rsuccess (fst (get_settings (Some i) s))
       \<and> rstatus (fst (get_me (Some i) s)) = 200
       \<and> rsuccess (fst (get_me (Some i) s))"
proof -
  have p: "protect (Some i) s = Inr \<lparr>req_user = u, isRestricted = True\<rparr>"
    using assms by (simp add: protect_def)
  have w: "allowWrite \<lparr>req_user = u, isRestricted = True\<rparr> = Some restricted_reply"
    by (simp add: allowWrite_def restricted_reply_def)
  have 1: "put_thresholds e (Some i) updates s = (restricted_reply, s)"
    by (simp add: put_thresholds_def p w)
  have 2: "post_control e (Some i) body s = (restricted_reply, s)"
    by (simp add: post_control_def p w)
  have 3: "post_auto e (Some i) s = (restricted_reply, s)"
    by (simp add: post_auto_def p w)
  have 4: "put_username e (Some i) newUsername s = (restricted_reply, s)"
    by (simp add: put_username_def p w)
  have 5: "change_password e (Some i) cur new s = (restricted_reply, s)"
    by (simp add: change_password_def p w)
  have 6: "rstatus restricted_reply = 403"
    by (simp add: restricted_reply_def failure_def)
  have 7: "rstatus (fst (get_thresholds (Some i) s)) = 200
         \<and> rsuccess (fst (get_thresholds (Some i) s))"
    by (simp add: get_thresholds_def p succeed_def split: prod.splits)
  have 8: "rstatus (fst (get_settings (Some i) s)) = 200
         \<and> rsuccess (fst (get_settings (Some i) s))"
    by (simp add: get_settings_def p succeed_def Let_def)
  have 9: "rstatus (fst (get_me (Some i) s)) = 200 \<and> rsuccess (fst (get_me (Some i) s))"
    by (simp add: get_me_def p succeed_def)
  show ?thesis using 1 2 3 4 5 6 7 8 9 by blast
qed

text \<open>The restricted user of the example asks for the water pump at \<open>pwm = 400\<close>.\<close>

theorem restricted_gate_witness:
  "findById 2 (users farm) = Some bob \<and> ustatus bob = Restricted
   \<and> post_control pi_up (Some 2)
        \<lparr>actuator = Some ''pump_water'', state_in = Some True, pwm = Some (PwmInt 400)\<rparr> farm
      = (restricted_reply, farm)
   \<and> rstatus (fst (get_settings (Some 2) farm)) = 200"
  using restricted_gate [of 2 farm bob pi_up _
      "\<lparr>actuator = Some ''pump_water'', state_in = Some True, pwm = Some (PwmInt 400)\<rparr>"]
    farm_bob
  by blast

text \<open>
  The same user changes the theme: the answer is 200 and the stored theme is now
  \<open>dark\<close>.
\<close>

theorem restricted_theme_counterexample:
  "ustatus bob = Restricted \<and> findById 2 (users farm) = Some bob
   \<and> rstatus (fst (put_theme (Some 2) (Some ''dark'') farm)) = 200
   \<and> rsuccess (fst (put_theme (Some 2) (Some ''dark'') farm))
   \<and> map theme (users farm) = [''light'', ''light'', ''light'', ''light'']
   \<and> map theme (users (snd (put_theme (Some 2) (Some ''dark'') farm)))
       = [''light'', ''dark'', ''light'', ''light'']"
  by (simp add: put_theme_def protect_def findById_def farm_def alice_def bob_def carol_def
      dave_def succeed_def update_user_def)

section \<open>Administration\<close>

lemma farm_alice: "findById 1 (users farm) = Some alice \<and> urole alice = RoleHeadAdmin"
  by (simp add: findById_def farm_def alice_def)

lemma farm_carol:
  "findById 3 (users farm) = Some carol \<and> urole carol = RoleUser \<and> isOnline carol
   \<and> socketId carol = Some ''sock-carol'' \<and> ustatus carol \<noteq> Banned
   \<and> ustatus carol \<noteq> Restricted"
  by (simp add: findById_def farm_def alice_def bob_def carol_def)

lemma farm_dave:
  "findById 4 (users farm) = Some dave \<and> urole dave = RoleAdmin \<and> ustatus dave \<noteq> Banned
   \<and> isAdmin dave"
  by (simp add: findById_def farm_def alice_def bob_def carol_def dave_def isAdmin_def)

lemma admin_gate_cases:
  "findById c (users s) = Some caller \<Longrightarrow>
   (\<exists>r. admin_gate (Some c) s = Inl r \<and> rstatus r = 403)
   \<or> admin_gate (Some c) s
        = Inr \<lparr>req_user = caller, isRestricted = (ustatus caller = Restricted)\<rparr>"
  by (auto simp: admin_gate_def protect_def adminOnly_def failure_def)

lemma admin_gate_pass:
  "findById c (users s) = Some caller \<Longrightarrow> ustatus caller \<noteq> Banned \<Longrightarrow> isAdmin caller \<Longrightarrow>
   admin_gate (Some c) s
     = Inr \<lparr>req_user = caller, isRestricted = (ustatus caller = Restricted)\<rparr>"
  by (simp add: admin_gate_def protect_def adminOnly_def)

lemma admin_gate_state:
  "admin_gate tok s = Inl r \<Longrightarrow> admin_action op tok i s = (r, s)"
  by (cases op)
    (simp_all add: admin_action_def delete_user_def ban_user_def restrict_user_def
      demote_user_def)

lemma head_admin_target:
  assumes t: "findById i (users s) = Some target" and h: "urole target = RoleHeadAdmin"
  shows "snd (admin_action op tok i s) = s"
    and "admin_gate tok s = Inr rq \<Longrightarrow> rstatus (fst (admin_action op tok i s)) = 403"
  using t h
  by (cases op; cases "admin_gate tok s";
      simp add: admin_action_def delete_user_def ban_user_def restrict_user_def
        demote_user_def headAdminOnly_def failure_def)+

lemma admin_on_admin:
  assumes "admin_gate tok s = Inr rq" and "urole (req_user rq) = RoleAdmin"
    and "findById i (users s) = Some target" and "urole target = RoleAdmin"
    and "op = Delete \<or> op = Demote"
  shows "rstatus (fst (admin_action op tok i s)) = 403 \<and> snd (admin_action op tok i s) = s"
  using assms
  by (auto simp: admin_action_def delete_user_def demote_user_def headAdminOnly_def
      isHeadAdmin_def failure_def)

text \<open>
  C2. Let the target of an admin operation (delete, ban or unban, restrict or unrestrict,
  demote) be an account with role \<open>head_admin\<close>. Then the state after the request is the
  state before it, whoever sends the request, and for every authenticated caller,
  the target itself included, the answer is 403. Moreover a caller with role \<open>admin\<close>
  who asks to delete or demote an account with role \<open>admin\<close> gets 403 and the state is
  unchanged.
\<close>

theorem head_admin_protected:
  "(findById i (users s) = Some target \<and> urole target = RoleHeadAdmin \<longrightarrow>
      snd (admin_action op tok i s) = s
      \<and> (\<forall>c caller. tok = Some c \<and> findById c (users s) = Some caller \<longrightarrow>
           rstatus (fst (admin_action op tok i s)) = 403))
   \<and> (tok = Some c \<and> findById c (users s) = Some caller \<and> urole caller = RoleAdmin
      \<and> findById i (users s) = Some target \<and> urole target = RoleAdmin
      \<and> (op = Delete \<or> op = Demote) \<longrightarrow>
        rstatus (fst (admin_action op tok i s)) = 403 \<and> snd (admin_action op tok i s) = s)"
proof (intro conjI impI allI)
  assume a: "findById i (users s) = Some target \<and> urole target = RoleHeadAdmin"
  then show "snd (admin_action op tok i s) = s"
    using head_admin_target(1) by blast
next
  fix c' caller'
  assume a: "findById i (users s) = Some target \<and> urole target = RoleHeadAdmin"
    and b: "tok = Some c' \<and> findById c' (users s) = Some caller'"
  from b admin_gate_cases [of c' s caller'] consider
    r where "admin_gate tok s = Inl r" "rstatus r = 403"
    | rq where "admin_gate tok s = Inr rq"
    by auto
  then show "rstatus (fst (admin_action op tok i s)) = 403"
  proof cases
    case 1 then show ?thesis by (simp add: admin_gate_state)
  next
    case 2 then show ?thesis using a head_admin_target(2) by blast
  qed
next
  assume a: "tok = Some c \<and> findById c (users s) = Some caller \<and> urole caller = RoleAdmin
      \<and> findById i (users s) = Some target \<and> urole target = RoleAdmin
      \<and> (op = Delete \<or> op = Demote)"
  then consider
    r where "admin_gate tok s = Inl r" "rstatus r = 403"
    | "admin_gate tok s
         = Inr \<lparr>req_user = caller, isRestricted = (ustatus caller = Restricted)\<rparr>"
    using admin_gate_cases [of c s caller] by auto
  then have "rstatus (fst (admin_action op tok i s)) = 403 \<and> snd (admin_action op tok i s) = s"
  proof cases
    case 1 then show ?thesis by (simp add: admin_gate_state)
  next
    case 2 then show ?thesis using a admin_on_admin [OF 2, of i target op] by simp
  qed
  then show "rstatus (fst (admin_action op tok i s)) = 403" "snd (admin_action op tok i s) = s"
    by simp_all
qed

text \<open>
  The head admin of the example tries to ban and to demote herself, and the plain admin
  tries to demote an admin.
\<close>

theorem head_admin_protected_witness:
  "findById 1 (users farm) = Some alice \<and> urole alice = RoleHeadAdmin
   \<and> findById 4 (users farm) = Some dave \<and> urole dave = RoleAdmin
   \<and> snd (admin_action (Ban True) (Some 1) 1 farm) = farm
   \<and> rstatus (fst (admin_action (Ban True) (Some 1) 1 farm)) = 403
   \<and> snd (admin_action Demote (Some 1) 1 farm) = farm
   \<and> rstatus (fst (admin_action Demote (Some 1) 1 farm)) = 403
   \<and> rstatus (fst (admin_action Demote (Some 4) 4 farm)) = 403
   \<and> snd (admin_action Demote (Some 4) 4 farm) = farm"
  using head_admin_protected [of 1 farm alice "Ban True" "Some 1" 1 alice]
    head_admin_protected [of 1 farm alice Demote "Some 1" 1 alice]
    head_admin_protected [of 4 farm dave Demote "Some 4" 4 dave]
    farm_alice farm_dave
  by blast

text \<open>
  C7. An admin bans an account with role \<open>user\<close>. When the account is online and has a
  recorded socket id, the request emits exactly one event, \<open>force_disconnect\<close>, to the
  room of that socket, which reaches that socket and no other; when the account is not
  online the request emits nothing. In both cases the account is now banned.
\<close>

theorem ban_force_disconnect:
  assumes "findById c (users s) = Some caller" and "ustatus caller \<noteq> Banned"
    and "isAdmin caller"
    and "findById i (users s) = Some u" and "urole u = RoleUser"
  shows "(isOnline u \<and> socketId u = Some sid \<and> sid \<noteq> [] \<longrightarrow>
            emitted (snd (ban_user (Some c) i True s)) = emitted s @ [force_disconnect_to sid]
            \<and> (\<forall>k. delivered_to (force_disconnect_to sid) k \<longleftrightarrow> k = sid))
       \<and> (\<not> isOnline u \<longrightarrow> emitted (snd (ban_user (Some c) i True s)) = emitted s)
       \<and> map_option ustatus (findById i (users (snd (ban_user (Some c) i True s))))
           = Some Banned"
proof -
  have g: "admin_gate (Some c) s
      = Inr \<lparr>req_user = caller, isRestricted = (ustatus caller = Restricted)\<rparr>"
    using assms(1-3) by (rule admin_gate_pass)
  have 1: "isOnline u \<and> socketId u = Some sid \<and> sid \<noteq> [] \<longrightarrow>
      emitted (snd (ban_user (Some c) i True s)) = emitted s @ [force_disconnect_to sid]"
    using assms(4,5)
    by (simp add: ban_user_def g Let_def emit_def log_activity_def force_disconnect_to_def)
  have 2: "\<forall>k. delivered_to (force_disconnect_to sid) k \<longleftrightarrow> k = sid"
    by (auto simp: force_disconnect_to_def)
  have 3: "\<not> isOnline u \<longrightarrow> emitted (snd (ban_user (Some c) i True s)) = emitted s"
    using assms(4,5) by (simp add: ban_user_def g Let_def log_activity_def)
  have "users (snd (ban_user (Some c) i True s))
      = update_user (uid u) (\<lambda>x. x\<lparr>ustatus := Banned\<rparr>) (users s)"
    using assms(4,5)
    by (simp add: ban_user_def g Let_def emit_def log_activity_def split: option.splits)
  then have 4: "map_option ustatus (findById i (users (snd (ban_user (Some c) i True s))))
      = Some Banned"
    using assms(4) findById_uid [OF assms(4)] by (simp add: findById_update_user)
  show ?thesis using 1 2 3 4 by blast
qed

text \<open>
  The admin of the example bans the user who is online on \<open>sock-carol\<close>, and then the
  user who is offline.
\<close>

theorem ban_force_disconnect_witness:
  "findById 4 (users farm) = Some dave \<and> ustatus dave \<noteq> Banned \<and> isAdmin dave
   \<and> findById 3 (users farm) = Some carol \<and> urole carol = RoleUser
   \<and> isOnline carol \<and> socketId carol = Some ''sock-carol''
   \<and> emitted (snd (ban_user (Some 4) 3 True farm))
       = emitted farm @ [force_disconnect_to ''sock-carol'']
   \<and> \<not> delivered_to (force_disconnect_to ''sock-carol'') ''sock-other''
   \<and> findById 2 (users farm) = Some bob \<and> urole bob = RoleUser \<and> \<not> isOnline bob
   \<and> emitted (snd (ban_user (Some 4) 2 True farm)) = emitted farm"
proof -
  have b: "findById 2 (users farm) = Some bob \<and> urole bob = RoleUser \<and> \<not> isOnline bob"
    by (simp add: findById_def farm_def alice_def bob_def)
  show ?thesis
    using ban_force_disconnect [of 4 farm dave 3 carol "''sock-carol''"]
      ban_force_disconnect [of 4 farm dave 2 bob "''x''"] farm_carol farm_dave b
    by auto
qed

section \<open>Threshold updates\<close>

lemma get_set_field:
  "k \<in> set validKeys \<Longrightarrow> k' \<in> set validKeys \<Longrightarrow>
   get_field k (set_field k' v t) = (if k = k' then v else get_field k t)"
  unfolding validKeys_def get_field_def set_field_def by auto

lemma set_field_frame:
  "lastUpdatedBy (set_field k v t) = lastUpdatedBy t"
  "lastSyncedWithArduino (set_field k v t) = lastSyncedWithArduino t"
  by (simp_all add: set_field_def)

lemma apply_updates_frame:
  "lastSyncedWithArduino (fst (apply_updates u ks t ch)) = lastSyncedWithArduino t"
  by (induction ks arbitrary: t ch) (simp_all add: set_field_frame split: option.splits)

lemma apply_updates_field:
  "set ks \<subseteq> set validKeys \<Longrightarrow> distinct ks \<Longrightarrow> k \<in> set validKeys \<Longrightarrow>
   get_field k (fst (apply_updates u ks t ch)) =
     (if k \<in> set ks then (case u k of Some v \<Rightarrow> v | None \<Rightarrow> get_field k t)
      else get_field k t)"
proof (induction ks arbitrary: t ch)
  case Nil
  then show ?case by simp
next
  case (Cons a ks)
  then show ?case
    by (cases "u a") (auto simp: get_set_field split: option.splits)
qed

lemma validKeys_distinct: "distinct validKeys"
  by (simp add: validKeys_def)

lemma apply_updates_validKeys:
  "k \<in> set validKeys \<Longrightarrow>
   get_field k (fst (apply_updates u validKeys t ch)) =
     (case u k of Some v \<Rightarrow> v | None \<Rightarrow> get_field k t)"
  using apply_updates_field [of validKeys k u t ch] validKeys_distinct by simp

lemma get_field_frame:
  "get_field k (t\<lparr>lastUpdatedBy := a\<rparr>) = get_field k t"
  "get_field k (t\<lparr>lastSyncedWithArduino := b\<rparr>) = get_field k t"
  by (simp_all add: get_field_def)

lemma put_thresholds_handler_doc:
  "threshold_doc (snd (put_thresholds_handler e rq updates s))
     = Some (saved_doc e (uid (req_user rq)) updates s)"
  "fst (put_thresholds_handler e rq updates s)
     = succeed 200 ''Thresholds updated successfully''
         (ThresholdsData (saved_doc e (uid (req_user rq)) updates s))"
  by (simp_all add: put_thresholds_handler_def saved_doc_def Let_def getCurrent_def
       log_activity_def emit_def post_to_pi_def split: prod.splits option.splits)

lemma put_thresholds_handler_users:
  "users (snd (put_thresholds_handler e rq updates s)) = users s"
  by (simp add: put_thresholds_handler_def Let_def getCurrent_def
       log_activity_def emit_def post_to_pi_def split: prod.splits option.splits)

lemma saved_doc_field:
  "k \<in> set validKeys \<Longrightarrow>
   get_field k (saved_doc e i updates s)
     = (case updates k of Some v \<Rightarrow> v | None \<Rightarrow> get_field k (fst (getCurrent s)))"
  by (simp add: saved_doc_def Let_def get_field_frame apply_updates_validKeys)

lemma saved_doc_sync:
  "\<not> relay_ok e \<Longrightarrow>
   lastSyncedWithArduino (saved_doc e i updates s)
     = lastSyncedWithArduino (fst (getCurrent s))"
  "relay_ok e \<Longrightarrow> lastSyncedWithArduino (saved_doc e i updates s) = Some (now e)"
  by (simp_all add: saved_doc_def Let_def apply_updates_frame)

lemma put_thresholds_pass:
  "findById i (users s) = Some u \<Longrightarrow> ustatus u \<noteq> Banned \<Longrightarrow> ustatus u \<noteq> Restricted \<Longrightarrow>
   put_thresholds e (Some i) updates s
     = put_thresholds_handler e \<lparr>req_user = u, isRestricted = False\<rparr> updates s"
  by (simp add: put_thresholds_def protect_def allowWrite_def)

lemma put_thresholds_cases:
  "snd (put_thresholds e tok updates s) = s
   \<or> (\<exists>rq. put_thresholds e tok updates s = put_thresholds_handler e rq updates s)"
  by (auto simp: put_thresholds_def split: sum.splits option.splits)

lemma get_thresholds_read:
  "findById j (users s) = Some r \<Longrightarrow> ustatus r \<noteq> Banned \<Longrightarrow> threshold_doc s = Some t \<Longrightarrow>
   get_thresholds (Some j) s = (succeed 200 [] (ThresholdsData t), s)"
  by (simp add: get_thresholds_def protect_def getCurrent_def)

lemma getCurrent_sync:
  "lastSyncedWithArduino (fst (getCurrent s))
     = (case threshold_doc s of None \<Rightarrow> None | Some t \<Rightarrow> lastSyncedWithArduino t)"
  by (simp add: getCurrent_def default_thresholds_def split: option.splits)

text \<open>
  C5. An unrestricted user writes thresholds while the call to the Pi fails. A read of
  the thresholds after the write, by any account that may read, returns a document in
  which every valid field named in the request has the value of the request, and whose
  \<open>lastSyncedWithArduino\<close> is the one the stored document had before the write (none
  when no document was stored).
\<close>

theorem relay_failure_keeps_write:
  assumes "findById i (users s) = Some u" and "ustatus u \<noteq> Banned"
    and "ustatus u \<noteq> Restricted" and "\<not> relay_ok e"
    and "findById j (users s) = Some r" and "ustatus r \<noteq> Banned"
  shows "\<exists>t'. fst (get_thresholds (Some j) (snd (put_thresholds e (Some i) updates s)))
              = succeed 200 [] (ThresholdsData t')
           \<and> (\<forall>k \<in> set validKeys. \<forall>v. updates k = Some v \<longrightarrow> get_field k t' = v)
           \<and> lastSyncedWithArduino t'
               = (case threshold_doc s of None \<Rightarrow> None | Some t \<Rightarrow> lastSyncedWithArduino t)"
proof -
  let ?rq = "\<lparr>req_user = u, isRestricted = False\<rparr>"
  let ?s' = "snd (put_thresholds e (Some i) updates s)"
  let ?t' = "saved_doc e i updates s"
  have p: "put_thresholds e (Some i) updates s = put_thresholds_handler e ?rq updates s"
    using assms(1-3) by (rule put_thresholds_pass)
  have i: "uid u = i" using assms(1) by (rule findById_uid)
  have d: "threshold_doc ?s' = Some ?t'"
    using put_thresholds_handler_doc(1) [of e ?rq updates s] by (simp add: p i)
  have us: "users ?s' = users s"
    by (simp add: p put_thresholds_handler_users)
  have 1: "fst (get_thresholds (Some j) ?s') = succeed 200 [] (ThresholdsData ?t')"
    using get_thresholds_read [of j ?s' r ?t'] assms(5,6) d us by simp
  have 2: "\<forall>k \<in> set validKeys. \<forall>v. updates k = Some v \<longrightarrow> get_field k ?t' = v"
    by (simp add: saved_doc_field)
  have 3: "lastSyncedWithArduino ?t'
      = (case threshold_doc s of None \<Rightarrow> None | Some t \<Rightarrow> lastSyncedWithArduino t)"
    using assms(4) by (simp add: saved_doc_sync(1) getCurrent_sync)
  show ?thesis using 1 2 3 by blast
qed

lemma farm_doc:
  "threshold_doc farm = Some (default_thresholds\<lparr>lastSyncedWithArduino := Some 5\<rparr>)"
  by (simp add: farm_def)

text \<open>The active user of the example sets \<open>soil1\<close> to 75 while the Pi is down.\<close>

theorem relay_failure_keeps_write_witness:
  "findById 3 (users farm) = Some carol \<and> ustatus carol \<noteq> Banned
   \<and> ustatus carol \<noteq> Restricted \<and> \<not> relay_ok pi_down
   \<and> (\<exists>t'. fst (get_thresholds (Some 3)
                  (snd (put_thresholds pi_down (Some 3) [''soil1'' \<mapsto> 75] farm)))
              = succeed 200 [] (ThresholdsData t')
           \<and> get_field ''soil1'' t' = 75
           \<and> lastSyncedWithArduino t' = Some 5)"
proof -
  have k: "''soil1'' \<in> set validKeys" by (simp add: validKeys_def)
  have d: "\<not> relay_ok pi_down" by (simp add: pi_down_def)
  from relay_failure_keeps_write [of 3 farm carol pi_down 3 carol "[''soil1'' \<mapsto> 75]"]
    farm_carol d
  obtain t' where t:
    "fst (get_thresholds (Some 3) (snd (put_thresholds pi_down (Some 3) [''soil1'' \<mapsto> 75] farm)))
       = succeed 200 [] (ThresholdsData t')"
    "\<forall>k \<in> set validKeys. \<forall>v. [''soil1'' \<mapsto> 75] k = Some v \<longrightarrow> get_field k t' = v"
    "lastSyncedWithArduino t'
       = (case threshold_doc farm of None \<Rightarrow> None | Some t \<Rightarrow> lastSyncedWithArduino t)"
    by blast
  from t(2) k have "get_field ''soil1'' t' = 75" by simp
  moreover from t(3) have "lastSyncedWithArduino t' = Some 5" by (simp add: farm_doc)
  ultimately show ?thesis using t(1) farm_carol d by blast
qed

text \<open>
  C9. Whatever the request and its outcome, a valid threshold field that the body does
  not name reads after the request as it read before. When the request is from an active
  user, a valid field that the body names reads as the value of the body.
\<close>

theorem threshold_update_frame:
  "(\<forall>k \<in> set validKeys. updates k = None \<longrightarrow>
      get_field k (fst (getCurrent (snd (put_thresholds e tok updates s))))
        = get_field k (fst (getCurrent s)))
   \<and> (tok = Some i \<and> findById i (users s) = Some u \<and> ustatus u = Active \<longrightarrow>
        (\<forall>k \<in> set validKeys. \<forall>v. updates k = Some v \<longrightarrow>
           get_field k (fst (getCurrent (snd (put_thresholds e tok updates s)))) = v))"
proof (intro conjI ballI impI allI)
  fix k assume k: "k \<in> set validKeys" and n: "updates k = None"
  from put_thresholds_cases [of e tok updates s]
  show "get_field k (fst (getCurrent (snd (put_thresholds e tok updates s))))
      = get_field k (fst (getCurrent s))"
  proof
    assume "snd (put_thresholds e tok updates s) = s"
    then show ?thesis by simp
  next
    assume "\<exists>rq. put_thresholds e tok updates s = put_thresholds_handler e rq updates s"
    then obtain rq where
      h: "put_thresholds e tok updates s = put_thresholds_handler e rq updates s" by blast
    have "fst (getCurrent (snd (put_thresholds e tok updates s)))
        = saved_doc e (uid (req_user rq)) updates s"
      using put_thresholds_handler_doc(1) [of e rq updates s]
      by (simp add: h getCurrent_def)
    then show ?thesis using k n by (simp add: saved_doc_field)
  qed
next
  fix k v
  assume a: "tok = Some i \<and> findById i (users s) = Some u \<and> ustatus u = Active"
    and k: "k \<in> set validKeys" and n: "updates k = Some v"
  let ?rq = "\<lparr>req_user = u, isRestricted = False\<rparr>"
  have h: "put_thresholds e tok updates s = put_thresholds_handler e ?rq updates s"
    using a put_thresholds_pass [of i s u e updates] by simp
  have "fst (getCurrent (snd (put_thresholds e tok updates s)))
      = saved_doc e (uid (req_user ?rq)) updates s"
    using put_thresholds_handler_doc(1) [of e ?rq updates s]
    by (simp add: h getCurrent_def)
  then show "get_field k (fst (getCurrent (snd (put_thresholds e tok updates s)))) = v"
    using k n by (simp add: saved_doc_field)
qed

text \<open>A write of \<open>soil1\<close> alone: \<open>soil2\<close> keeps its value and \<open>soil1\<close> is 75.\<close>

theorem threshold_update_frame_witness:
  "''soil2'' \<in> set validKeys \<and> ''soil1'' \<in> set validKeys
   \<and> [''soil1'' \<mapsto> 75] ''soil2'' = None \<and> [''soil1'' \<mapsto> (75::rat)] ''soil1'' = Some 75
   \<and> findById 3 (users farm) = Some carol \<and> ustatus carol = Active
   \<and> get_field ''soil2''
        (fst (getCurrent (snd (put_thresholds pi_up (Some 3) [''soil1'' \<mapsto> 75] farm))))
       = get_field ''soil2'' (fst (getCurrent farm))
   \<and> get_field ''soil1''
        (fst (getCurrent (snd (put_thresholds pi_up (Some 3) [''soil1'' \<mapsto> 75] farm))))
       = 75"
proof -
  have k: "''soil2'' \<in> set validKeys \<and> ''soil1'' \<in> set validKeys"
    by (simp add: validKeys_def)
  have u: "[''soil1'' \<mapsto> 75] ''soil2'' = (None :: rat option)
      \<and> [''soil1'' \<mapsto> (75::rat)] ''soil1'' = Some 75"
    by simp
  have c: "findById 3 (users farm) = Some carol \<and> ustatus carol = Active"
    by (simp add: findById_def farm_def alice_def bob_def carol_def)
  note T = threshold_update_frame [of "[''soil1'' \<mapsto> 75]" pi_up "Some 3" farm 3 carol]
  have A: "get_field ''soil2''
        (fst (getCurrent (snd (put_thresholds pi_up (Some 3) [''soil1'' \<mapsto> 75] farm))))
       = get_field ''soil2'' (fst (getCurrent farm))"
    using T [THEN conjunct1, THEN bspec, of "''soil2''"] k u by simp
  have B: "get_field ''soil1''
        (fst (getCurrent (snd (put_thresholds pi_up (Some 3) [''soil1'' \<mapsto> 75] farm))))
       = 75"
    using T [THEN conjunct2, THEN mp, THEN bspec, of "''soil1''"] k c by simp
  show ?thesis using A B k u c by simp
qed

section \<open>Manual control and the relay\<close>

lemma post_control_pass:
  "findById i (users s) = Some u \<Longrightarrow> ustatus u \<noteq> Banned \<Longrightarrow> ustatus u \<noteq> Restricted \<Longrightarrow>
   post_control e (Some i) body s
     = post_control_handler e \<lparr>req_user = u, isRestricted = False\<rparr> body s"
  by (simp add: post_control_def protect_def allowWrite_def)

lemma post_auto_pass:
  "findById i (users s) = Some u \<Longrightarrow> ustatus u \<noteq> Banned \<Longrightarrow> ustatus u \<noteq> Restricted \<Longrightarrow>
   post_auto e (Some i) s = post_auto_handler e \<lparr>req_user = u, isRestricted = False\<rparr> s"
  by (simp add: post_auto_def protect_def allowWrite_def)

lemma valid_actuator_nonempty: "a \<in> set validActuators \<Longrightarrow> a \<noteq> []"
  by (auto simp: validActuators_def)

lemma post_control_handler_down:
  "a \<in> set validActuators \<Longrightarrow> \<not> relay_ok e \<Longrightarrow>
   post_control_handler e rq \<lparr>actuator = Some a, state_in = Some st, pwm = p\<rparr> s
     = (pi_unreachable, post_to_pi (ManualCommand (build_command a st p)) s)"
  by (simp add: post_control_handler_def valid_actuator_nonempty pi_unreachable_def Let_def)

lemma post_control_handler_up:
  "a \<in> set validActuators \<Longrightarrow> relay_ok e \<Longrightarrow>
   snd (post_control_handler e rq \<lparr>actuator = Some a, state_in = Some st, pwm = p\<rparr> s)
     = emit Everyone ''manual_control'' (ManualControl a st p (username (req_user rq)) (now e))
         (log_activity (req_user rq) ''manual_control'' (ManualDetails a st p)
            (post_to_pi (ManualCommand (build_command a st p)) s))"
  by (simp add: post_control_handler_def valid_actuator_nonempty Let_def)

lemma build_command_int:
  "\<bar>v\<bar> < 10 ^ 21 \<Longrightarrow>
   build_command a st (Some (PwmInt v))
     = \<lparr>cmd_actuator = a, cmd_state = st,
        cmd_pwm = (if a = ''fan_exhaust'' \<or> a = ''peltier'' then Some (Num (clamp_pwm v))
                   else None)\<rparr>"
  by (simp add: build_command_def parseInt_def min255_def max0_def clamp_pwm_def)

lemma clamp_pwm_id: "0 \<le> v \<Longrightarrow> v \<le> 255 \<Longrightarrow> clamp_pwm v = v"
  by (simp add: clamp_pwm_def)

text \<open>
  C3 (as amended). An unrestricted user sends a command for a whitelisted actuator with
  an integer \<open>pwm\<close> of \<open>v\<close>, \<open>\<bar>v\<bar> < 10 ^ 21\<close> (a number that JavaScript prints in plain
  digits). The command posted to the Pi carries \<open>pwm = clamp(v, 0, 255)\<close>
  when the actuator is \<open>fan_exhaust\<close> or \<open>peltier\<close>, and no \<open>pwm\<close> for the other
  actuators. When the call to the Pi succeeds, exactly one \<open>manual_control\<close> event is
  broadcast, for that actuator and state; for \<open>fan_exhaust\<close> and \<open>peltier\<close> with
  \<open>0 \<le> v \<le> 255\<close> its \<open>pwm\<close> is the value posted to the Pi.
\<close>

theorem pwm_relay_clamped:
  assumes "findById i (users s) = Some u" and "ustatus u \<noteq> Banned"
    and "ustatus u \<noteq> Restricted" and "a \<in> set validActuators" and "\<bar>v\<bar> < 10 ^ 21"
  shows "relayed (snd (post_control e (Some i)
                    \<lparr>actuator = Some a, state_in = Some st, pwm = Some (PwmInt v)\<rparr> s))
           = relayed s @
             [ManualCommand \<lparr>cmd_actuator = a, cmd_state = st,
                cmd_pwm = (if a = ''fan_exhaust'' \<or> a = ''peltier''
                           then Some (Num (clamp_pwm v)) else None)\<rparr>]
       \<and> 0 \<le> clamp_pwm v \<and> clamp_pwm v \<le> 255
       \<and> (0 \<le> v \<and> v \<le> 255 \<longrightarrow> clamp_pwm v = v)
       \<and> (v < 0 \<longrightarrow> clamp_pwm v = 0) \<and> (255 < v \<longrightarrow> clamp_pwm v = 255)
       \<and> (relay_ok e \<longrightarrow>
            (\<exists>p. emitted (snd (post_control e (Some i)
                     \<lparr>actuator = Some a, state_in = Some st, pwm = Some (PwmInt v)\<rparr> s))
                   = emitted s @ [manual_control_event a st p (username u) (now e)]))
       \<and> (relay_ok e \<and> (a = ''fan_exhaust'' \<or> a = ''peltier'') \<and> 0 \<le> v \<and> v \<le> 255 \<longrightarrow>
            emitted (snd (post_control e (Some i)
                     \<lparr>actuator = Some a, state_in = Some st, pwm = Some (PwmInt v)\<rparr> s))
              = emitted s @
                [manual_control_event a st (Some (PwmInt (clamp_pwm v))) (username u) (now e)])"
proof -
  let ?rq = "\<lparr>req_user = u, isRestricted = False\<rparr>"
  let ?body = "\<lparr>actuator = Some a, state_in = Some st, pwm = Some (PwmInt v)\<rparr>"
  let ?s' = "snd (post_control e (Some i) ?body s)"
  have p: "post_control e (Some i) ?body s = post_control_handler e ?rq ?body s"
    using assms(1-3) by (rule post_control_pass)
  have 1: "relayed ?s' = relayed s @ [ManualCommand (build_command a st (Some (PwmInt v)))]"
  proof (cases "relay_ok e")
    case True
    then show ?thesis
      by (simp add: p post_control_handler_up [OF assms(4)] emit_def log_activity_def
          post_to_pi_def)
  next
    case False
    then show ?thesis
      by (simp add: p post_control_handler_down [OF assms(4)] post_to_pi_def)
  qed
  have 2: "0 \<le> clamp_pwm v \<and> clamp_pwm v \<le> 255
       \<and> (0 \<le> v \<and> v \<le> 255 \<longrightarrow> clamp_pwm v = v)
       \<and> (v < 0 \<longrightarrow> clamp_pwm v = 0) \<and> (255 < v \<longrightarrow> clamp_pwm v = 255)"
    by (simp add: clamp_pwm_def)
  have 3: "relay_ok e \<longrightarrow>
      emitted ?s' = emitted s @ [manual_control_event a st (Some (PwmInt v)) (username u) (now e)]"
    by (simp add: p post_control_handler_up [OF assms(4)] emit_def log_activity_def
        post_to_pi_def manual_control_event_def)
  have 4: "relay_ok e \<longrightarrow> (\<exists>p. emitted ?s'
      = emitted s @ [manual_control_event a st p (username u) (now e)])"
    using 3 by blast
  have 5: "relay_ok e \<and> (a = ''fan_exhaust'' \<or> a = ''peltier'') \<and> 0 \<le> v \<and> v \<le> 255 \<longrightarrow>
      emitted ?s' = emitted s @
        [manual_control_event a st (Some (PwmInt (clamp_pwm v))) (username u) (now e)]"
    using 3 by (simp add: clamp_pwm_id)
  show ?thesis
    unfolding 1 build_command_int [OF assms(5)] using 2 4 5 by simp
qed

lemma validActuators_mem:
  "''pump_water'' \<in> set validActuators" "''peltier'' \<in> set validActuators"
  "''fan_exhaust'' \<in> set validActuators"
  by (simp_all add: validActuators_def)

lemma pi_flags: "relay_ok pi_up" "\<not> relay_ok pi_down" "now pi_up = 100" "now pi_down = 100"
  by (simp_all add: pi_up_def pi_down_def)

lemma farm_traces: "emitted farm = []" "relayed farm = []" "activity_log farm = []"
  by (simp_all add: farm_def)

lemma carol_name: "username carol = ''carol''"
  by (simp add: carol_def)

text \<open>
  The active user of the example drives the peltier at 300, relayed as 255, and the
  exhaust fan at 120, relayed and broadcast as 120.
\<close>

theorem pwm_relay_clamped_witness:
  "findById 3 (users farm) = Some carol \<and> ustatus carol \<noteq> Banned
   \<and> ustatus carol \<noteq> Restricted \<and> ''peltier'' \<in> set validActuators
   \<and> ''fan_exhaust'' \<in> set validActuators \<and> relay_ok pi_up
   \<and> \<bar>300 :: int\<bar> < 10 ^ 21 \<and> \<bar>120 :: int\<bar> < 10 ^ 21
   \<and> relayed (snd (post_control pi_up (Some 3)
        \<lparr>actuator = Some ''peltier'', state_in = Some True, pwm = Some (PwmInt 300)\<rparr> farm))
       = [ManualCommand \<lparr>cmd_actuator = ''peltier'', cmd_state = True, cmd_pwm = Some (Num 255)\<rparr>]
   \<and> relayed (snd (post_control pi_up (Some 3)
        \<lparr>actuator = Some ''fan_exhaust'', state_in = Some True, pwm = Some (PwmInt 120)\<rparr> farm))
       = [ManualCommand
            \<lparr>cmd_actuator = ''fan_exhaust'', cmd_state = True, cmd_pwm = Some (Num 120)\<rparr>]
   \<and> emitted (snd (post_control pi_up (Some 3)
        \<lparr>actuator = Some ''fan_exhaust'', state_in = Some True, pwm = Some (PwmInt 120)\<rparr> farm))
       = [manual_control_event ''fan_exhaust'' True (Some (PwmInt 120)) ''carol'' 100]"
proof -
  have r: "\<bar>300::int\<bar> < 10 ^ 21" "\<bar>120::int\<bar> < 10 ^ 21" by simp_all
  note A = pwm_relay_clamped [of 3 farm carol "''peltier''" 300 pi_up True]
  note B = pwm_relay_clamped [of 3 farm carol "''fan_exhaust''" 120 pi_up True]
  have c: "clamp_pwm 300 = 255" "clamp_pwm 120 = 120" by (simp_all add: clamp_pwm_def)
  have 1: "relayed (snd (post_control pi_up (Some 3)
        \<lparr>actuator = Some ''peltier'', state_in = Some True, pwm = Some (PwmInt 300)\<rparr> farm))
       = [ManualCommand \<lparr>cmd_actuator = ''peltier'', cmd_state = True, cmd_pwm = Some (Num 255)\<rparr>]"
    using A [THEN conjunct1] farm_carol validActuators_mem r by (simp add: farm_traces c)
  have 2: "relayed (snd (post_control pi_up (Some 3)
        \<lparr>actuator = Some ''fan_exhaust'', state_in = Some True, pwm = Some (PwmInt 120)\<rparr> farm))
       = [ManualCommand
            \<lparr>cmd_actuator = ''fan_exhaust'', cmd_state = True, cmd_pwm = Some (Num 120)\<rparr>]"
    using B [THEN conjunct1] farm_carol validActuators_mem r by (simp add: farm_traces c)
  have 3: "emitted (snd (post_control pi_up (Some 3)
        \<lparr>actuator = Some ''fan_exhaust'', state_in = Some True, pwm = Some (PwmInt 120)\<rparr> farm))
       = [manual_control_event ''fan_exhaust'' True (Some (PwmInt 120)) ''carol'' 100]"
    using B farm_carol validActuators_mem r
    by (simp add: farm_traces c pi_flags carol_name)
  show ?thesis using 1 2 3 farm_carol validActuators_mem pi_flags by simp
qed

text \<open>
  The same user switches the water pump on with \<open>pwm = 400\<close>: the command posted to the
  Pi has no \<open>pwm\<close>, and the broadcast carries 400.
\<close>

theorem pump_pwm_counterexample:
  "''pump_water'' \<in> set validActuators
   \<and> rstatus (fst (post_control pi_up (Some 3)
        \<lparr>actuator = Some ''pump_water'', state_in = Some True, pwm = Some (PwmInt 400)\<rparr> farm))
       = 200
   \<and> relayed (snd (post_control pi_up (Some 3)
        \<lparr>actuator = Some ''pump_water'', state_in = Some True, pwm = Some (PwmInt 400)\<rparr> farm))
       = [ManualCommand \<lparr>cmd_actuator = ''pump_water'', cmd_state = True, cmd_pwm = None\<rparr>]
   \<and> emitted (snd (post_control pi_up (Some 3)
        \<lparr>actuator = Some ''pump_water'', state_in = Some True, pwm = Some (PwmInt 400)\<rparr> farm))
       = [manual_control_event ''pump_water'' True (Some (PwmInt 400)) ''carol'' 100]"
  by (simp add: post_control_def post_control_handler_def protect_def allowWrite_def
      findById_def farm_def alice_def bob_def carol_def validActuators_def build_command_def
      post_to_pi_def log_activity_def emit_def succeed_def pi_up_def manual_control_event_def
      Let_def)

text \<open>For the peltier at 400 the broadcast carries 400 as well.\<close>

lemma peltier_broadcast_raw:
  "emitted (snd (post_control pi_up (Some 3)
        \<lparr>actuator = Some ''peltier'', state_in = Some True, pwm = Some (PwmInt 400)\<rparr> farm))
       = [manual_control_event ''peltier'' True (Some (PwmInt 400)) ''carol'' 100]"
  by (simp add: post_control_def post_control_handler_def protect_def allowWrite_def
      findById_def farm_def alice_def bob_def carol_def validActuators_def build_command_def
      post_to_pi_def log_activity_def emit_def succeed_def pi_up_def manual_control_event_def
      Let_def)

text \<open>
  For the peltier at \<open>10 ^ 21\<close>, which JavaScript prints as \<open>1e+21\<close>, the command posted
  to the Pi carries \<open>pwm = 1\<close>.
\<close>

lemma leading_digit_1e21: "leading_digit 1000000000000000000000 = 1"
  by (simp add: leading_digit.simps)

lemma peltier_exponent_notation:
  "relayed (snd (post_control pi_up (Some 3)
        \<lparr>actuator = Some ''peltier'', state_in = Some True, pwm = Some (PwmInt (10 ^ 21))\<rparr>
        farm))
       = [ManualCommand \<lparr>cmd_actuator = ''peltier'', cmd_state = True, cmd_pwm = Some (Num 1)\<rparr>]"
proof -
  have p: "parseInt (PwmInt 1000000000000000000000) = Num 1"
    by (simp add: parseInt_def leading_digit_1e21)
  have b: "build_command ''peltier'' True (Some (PwmInt 1000000000000000000000))
      = \<lparr>cmd_actuator = ''peltier'', cmd_state = True, cmd_pwm = Some (Num 1)\<rparr>"
    by (simp add: build_command_def p min255_def max0_def)
  have c: "findById 3 (users farm) = Some carol" "ustatus carol \<noteq> Banned"
    "ustatus carol \<noteq> Restricted"
    using farm_carol by simp_all
  show ?thesis
    by (simp add: post_control_pass [OF c] post_control_handler_up [OF validActuators_mem(2)]
        pi_flags b emit_def log_activity_def post_to_pi_def farm_traces)
qed

text \<open>
  C4 (as amended). The call to the Pi fails during a request of an unrestricted user.
  A threshold write is answered 200 with \<open>success: true\<close> and the message
  \<open>Thresholds updated successfully\<close>, exactly the answer given when the call succeeds
  but for the \<open>lastSyncedWithArduino\<close> of the returned document: nothing in the answer
  reports the failure. An actuator command and a resumption of automatic mode are
  answered 503 with \<open>success: false\<close>, and neither leaves an activity log entry or a
  broadcast.
\<close>

theorem relay_failure_reporting:
  assumes "findById i (users s) = Some u" and "ustatus u \<noteq> Banned"
    and "ustatus u \<noteq> Restricted" and "\<not> relay_ok e"
  shows "(\<exists>t. fst (put_thresholds e (Some i) updates s)
               = succeed 200 ''Thresholds updated successfully'' (ThresholdsData t)
            \<and> fst (put_thresholds (e\<lparr>relay_ok := True\<rparr>) (Some i) updates s)
               = succeed 200 ''Thresholds updated successfully''
                   (ThresholdsData (t\<lparr>lastSyncedWithArduino := Some (now e)\<rparr>)))
       \<and> (a \<in> set validActuators \<longrightarrow>
            fst (post_control e (Some i) \<lparr>actuator = Some a, state_in = Some st, pwm = p\<rparr> s)
              = pi_unreachable
            \<and> emitted (snd (post_control e (Some i)
                  \<lparr>actuator = Some a, state_in = Some st, pwm = p\<rparr> s)) = emitted s
            \<and> activity_log (snd (post_control e (Some i)
                  \<lparr>actuator = Some a, state_in = Some st, pwm = p\<rparr> s)) = activity_log s)
       \<and> fst (post_auto e (Some i) s) = pi_unreachable
       \<and> emitted (snd (post_auto e (Some i) s)) = emitted s
       \<and> activity_log (snd (post_auto e (Some i) s)) = activity_log s
       \<and> rstatus pi_unreachable = 503 \<and> \<not> rsuccess pi_unreachable"
proof -
  let ?rq = "\<lparr>req_user = u, isRestricted = False\<rparr>"
  have r: "fst (put_thresholds e' (Some i) updates s)
      = succeed 200 ''Thresholds updated successfully''
          (ThresholdsData (saved_doc e' i updates s))" for e'
    using put_thresholds_pass [OF assms(1-3), of e' updates]
      put_thresholds_handler_doc(2) [of e' ?rq updates s] findById_uid [OF assms(1)]
    by simp
  have d: "saved_doc (e\<lparr>relay_ok := True\<rparr>) i updates s
      = (saved_doc e i updates s)\<lparr>lastSyncedWithArduino := Some (now e)\<rparr>"
    using assms(4) by (simp add: saved_doc_def Let_def)
  have 1: "\<exists>t. fst (put_thresholds e (Some i) updates s)
               = succeed 200 ''Thresholds updated successfully'' (ThresholdsData t)
            \<and> fst (put_thresholds (e\<lparr>relay_ok := True\<rparr>) (Some i) updates s)
               = succeed 200 ''Thresholds updated successfully''
                   (ThresholdsData (t\<lparr>lastSyncedWithArduino := Some (now e)\<rparr>))"
    using r [of e] r [of "e\<lparr>relay_ok := True\<rparr>"] d by auto
  have 2: "a \<in> set validActuators \<longrightarrow>
            fst (post_control e (Some i) \<lparr>actuator = Some a, state_in = Some st, pwm = p\<rparr> s)
              = pi_unreachable
            \<and> emitted (snd (post_control e (Some i)
                  \<lparr>actuator = Some a, state_in = Some st, pwm = p\<rparr> s)) = emitted s
            \<and> activity_log (snd (post_control e (Some i)
                  \<lparr>actuator = Some a, state_in = Some st, pwm = p\<rparr> s)) = activity_log s"
    using assms(4)
    by (simp add: post_control_pass [OF assms(1-3)] post_control_handler_down post_to_pi_def)
  have 3: "fst (post_auto e (Some i) s) = pi_unreachable
      \<and> emitted (snd (post_auto e (Some i) s)) = emitted s
      \<and> activity_log (snd (post_auto e (Some i) s)) = activity_log s"
    using assms(4)
    by (simp add: post_auto_pass [OF assms(1-3)] post_auto_handler_def pi_unreachable_def
        post_to_pi_def Let_def)
  have 4: "rstatus pi_unreachable = 503 \<and> \<not> rsuccess pi_unreachable"
    by (simp add: pi_unreachable_def failure_def)
  show ?thesis using 1 2 3 4 by blast
qed

text \<open>
  With the Pi down, the active user of the example writes \<open>soil1\<close>, drives the peltier
  and resumes automatic mode.
\<close>

theorem relay_failure_reporting_witness:
  "findById 3 (users farm) = Some carol \<and> ustatus carol \<noteq> Banned
   \<and> ustatus carol \<noteq> Restricted \<and> \<not> relay_ok pi_down
   \<and> ''peltier'' \<in> set validActuators
   \<and> (\<exists>t. fst (put_thresholds pi_down (Some 3) [''soil1'' \<mapsto> 75] farm)
               = succeed 200 ''Thresholds updated successfully'' (ThresholdsData t)
          \<and> fst (put_thresholds (pi_down\<lparr>relay_ok := True\<rparr>) (Some 3) [''soil1'' \<mapsto> 75] farm)
               = succeed 200 ''Thresholds updated successfully''
                   (ThresholdsData (t\<lparr>lastSyncedWithArduino := Some (now pi_down)\<rparr>)))
   \<and> fst (post_control pi_down (Some 3)
        \<lparr>actuator = Some ''peltier'', state_in = Some True, pwm = None\<rparr> farm) = pi_unreachable
   \<and> fst (post_auto pi_down (Some 3) farm) = pi_unreachable
   \<and> emitted (snd (post_auto pi_down (Some 3) farm)) = []
   \<and> activity_log (snd (post_auto pi_down (Some 3) farm)) = []"
proof -
  note R = relay_failure_reporting
      [of 3 farm carol pi_down "[''soil1'' \<mapsto> 75]" "''peltier''" True None]
  have h: "findById 3 (users farm) = Some carol" "ustatus carol \<noteq> Banned"
    "ustatus carol \<noteq> Restricted" "\<not> relay_ok pi_down" "''peltier'' \<in> set validActuators"
    using farm_carol validActuators_mem(2) pi_flags(2) by simp_all
  note R' = R [OF h(1-4)]
  show ?thesis
    using R' [THEN conjunct1] R' [THEN conjunct2, THEN conjunct1, THEN mp, OF h(5)]
      R' [THEN conjunct2, THEN conjunct2] h
    by (intro conjI) (simp_all add: farm_traces)
qed

text \<open>
  The write of \<open>soil1 = 75\<close> with the Pi down and with the Pi up: the two answers have
  the same status, flag and message, and differ in \<open>lastSyncedWithArduino\<close> alone.
\<close>

theorem silent_relay_failure_counterexample:
  "\<not> relay_ok pi_down \<and> relay_ok pi_up
   \<and> fst (put_thresholds pi_down (Some 3) [''soil1'' \<mapsto> 75] farm)
       = succeed 200 ''Thresholds updated successfully''
           (ThresholdsData (default_thresholds\<lparr>soil1 := 75, lastUpdatedBy := Some 3,
              lastSyncedWithArduino := Some 5\<rparr>))
   \<and> fst (put_thresholds pi_up (Some 3) [''soil1'' \<mapsto> 75] farm)
       = succeed 200 ''Thresholds updated successfully''
           (ThresholdsData (default_thresholds\<lparr>soil1 := 75, lastUpdatedBy := Some 3,
              lastSyncedWithArduino := Some 100\<rparr>))"
  by (simp add: put_thresholds_def put_thresholds_handler_def protect_def allowWrite_def
      findById_def farm_def alice_def bob_def carol_def validKeys_def set_field_def
      getCurrent_def post_to_pi_def log_activity_def emit_def succeed_def pi_up_def
      pi_down_def default_thresholds_def Let_def)

section \<open>Presence\<close>

lemma io_use_found:
  "findById i (users s) = Some u \<Longrightarrow> ustatus u \<noteq> Banned \<Longrightarrow>
   io_use (GoodToken i) sid s
     = Inr \<lparr>sock_id = sid, sock_userId = i, sock_username = username u, sock_role = urole u\<rparr>"
  by (simp add: io_use_def findById_uid)

lemma on_connection_lookup:
  "findById i (users (on_connection sock s))
     = (if i = sock_userId sock
        then map_option (\<lambda>u. u\<lparr>isOnline := True, socketId := Some (sock_id sock)\<rparr>)
               (findById i (users s))
        else findById i (users s))"
  by (simp add: on_connection_def emit_def Let_def findById_update_user)

lemma on_disconnect_lookup:
  "findById i (users (on_disconnect sock s))
     = (if i = sock_userId sock
        then map_option (\<lambda>u. u\<lparr>isOnline := False, socketId := None\<rparr>) (findById i (users s))
        else findById i (users s))"
  by (simp add: on_disconnect_def emit_def Let_def findById_update_user)

lemma client_connect_found:
  "findById i (users s) = Some u \<Longrightarrow> ustatus u \<noteq> Banned \<Longrightarrow>
   client_connect (GoodToken i) sid s = (Some (user_sock u sid), on_connection (user_sock u sid) s)"
  by (simp add: client_connect_def io_use_found user_sock_def findById_uid)

text \<open>
  C6 (as amended). A user who is not banned connects on the socket \<open>a\<close> and then on the
  socket \<open>b\<close>. After the two connections the user is online and the one recorded socket
  id is \<open>b\<close>. The disconnect event of the first socket, handled after that, marks the
  user offline, clears the recorded socket id and broadcasts \<open>user_offline\<close>: the
  handler does not compare the id of the closing socket with the recorded one.
\<close>

theorem reconnect_then_stale_disconnect:
  assumes "findById i (users s) = Some u" and "ustatus u \<noteq> Banned"
    and "client_connect (GoodToken i) a s = (k1, s1)"
    and "client_connect (GoodToken i) b s1 = (k2, s2)"
  shows "k1 = Some (user_sock u a) \<and> k2 = Some (user_sock u b)
       \<and> findById i (users s2) = Some (u\<lparr>isOnline := True, socketId := Some b\<rparr>)
       \<and> findById i (users (on_disconnect (user_sock u a) s2))
           = Some (u\<lparr>isOnline := False, socketId := None\<rparr>)
       \<and> emitted (on_disconnect (user_sock u a) s2)
           = emitted s2 @ [\<lparr>ev_target = Everyone, ev_topic = ''user_offline'',
                            ev_data = UserPresence i (username u)\<rparr>]"
proof -
  have i: "uid u = i" using assms(1) by (rule findById_uid)
  have c1: "k1 = Some (user_sock u a)" "s1 = on_connection (user_sock u a) s"
    using assms(3) client_connect_found [OF assms(1,2), of a] by simp_all
  have f1: "findById i (users s1) = Some (u\<lparr>isOnline := True, socketId := Some a\<rparr>)"
    using assms(1) i by (simp add: c1(2) on_connection_lookup user_sock_def)
  have c2: "k2 = Some (user_sock u b)" "s2 = on_connection (user_sock u b) s1"
    using assms(4) client_connect_found [OF f1, of b] assms(2)
    by (simp_all add: user_sock_def)
  have f2: "findById i (users s2) = Some (u\<lparr>isOnline := True, socketId := Some b\<rparr>)"
    using f1 i by (simp add: c2(2) on_connection_lookup user_sock_def)
  have f3: "findById i (users (on_disconnect (user_sock u a) s2))
      = Some (u\<lparr>isOnline := False, socketId := None\<rparr>)"
    using f2 i by (simp add: on_disconnect_lookup user_sock_def)
  have e: "emitted (on_disconnect (user_sock u a) s2)
      = emitted s2 @ [\<lparr>ev_target = Everyone, ev_topic = ''user_offline'',
                       ev_data = UserPresence i (username u)\<rparr>]"
    using i by (simp add: on_disconnect_def emit_def Let_def user_sock_def)
  show ?thesis using c1(1) c2(1) f2 f3 e by simp
qed

text \<open>
  The head admin of the example connects twice.
\<close>

theorem reconnect_then_stale_disconnect_witness:
  "findById 1 (users farm) = Some alice \<and> ustatus alice \<noteq> Banned
   \<and> findById 1 (users (snd (client_connect (GoodToken 1) ''sock-2''
                               (snd (client_connect (GoodToken 1) ''sock-1'' farm)))))
       = Some (alice\<lparr>isOnline := True, socketId := Some ''sock-2''\<rparr>)
   \<and> findById 1 (users (on_disconnect (user_sock alice ''sock-1'')
                          (snd (client_connect (GoodToken 1) ''sock-2''
                                 (snd (client_connect (GoodToken 1) ''sock-1'' farm))))))
       = Some (alice\<lparr>isOnline := False, socketId := None\<rparr>)"
proof -
  have a: "findById 1 (users farm) = Some alice" "ustatus alice \<noteq> Banned"
    by (simp_all add: findById_def farm_def alice_def)
  note T = reconnect_then_stale_disconnect [OF a surjective_pairing surjective_pairing,
      of "''sock-1''" "''sock-2''"]
  show ?thesis using T a by simp
qed

text \<open>
  After the two connections the first socket closes: the user is recorded offline with
  no socket, while \<open>sock-2\<close> is still open.
\<close>

theorem stale_disconnect_counterexample:
  "fst (client_connect (GoodToken 1) ''sock-1'' farm)
       = Some \<lparr>sock_id = ''sock-1'', sock_userId = 1, sock_username = ''alice'',
               sock_role = RoleHeadAdmin\<rparr>
   \<and> findById 1 (users (snd (client_connect (GoodToken 1) ''sock-2''
                               (snd (client_connect (GoodToken 1) ''sock-1'' farm)))))
       = Some (alice\<lparr>isOnline := True, socketId := Some ''sock-2''\<rparr>)
   \<and> findById 1 (users (on_disconnect
                 \<lparr>sock_id = ''sock-1'', sock_userId = 1, sock_username = ''alice'',
                   sock_role = RoleHeadAdmin\<rparr>
                 (snd (client_connect (GoodToken 1) ''sock-2''
                         (snd (client_connect (GoodToken 1) ''sock-1'' farm))))))
       = Some (alice\<lparr>isOnline := False, socketId := None\<rparr>)"
  by (simp add: client_connect_def io_use_def on_connection_def on_disconnect_def emit_def
      update_user_def findById_def farm_def alice_def bob_def carol_def dave_def Let_def)

section \<open>Alerts from the Pi\<close>

lemma broadcast_alerts_emitted:
  "emitted (broadcast_alerts as s)
     = emitted s @ map system_alert_event (filter is_broadcast_level as)"
  by (induction as arbitrary: s)
    (auto simp: emit_def system_alert_event_def is_broadcast_level_def)

lemma broadcast_alerts_frame:
  "alerts_db (broadcast_alerts as s) = alerts_db s"
  by (induction as arbitrary: s) (simp_all add: emit_def)

lemma post_alerts_cases:
  "snd (post_alerts e key apiKey alerts s) = s
   \<or> (\<exists>as. alerts = Some as \<and> piAuth key apiKey = None \<and> list_all valid_alert as
         \<and> snd (post_alerts e key apiKey alerts s)
             = broadcast_alerts (map (to_alert (now e)) as)
                 (s\<lparr>alerts_db := alerts_db s @ map (to_alert (now e)) as\<rparr>))"
  by (auto simp: post_alerts_def Let_def split: option.splits)

text \<open>
  C8. For every request to \<open>POST /api/pi/alerts\<close>, the events the request emits are
  the \<open>system_alert\<close> broadcasts of the alerts it stored whose level is \<open>ERROR\<close> or
  \<open>CRITICAL\<close>, in the order stored, and nothing else: a stored alert is broadcast if and
  only if its level is one of the two. A batch that passes the key check and the
  validators of the schema is stored whole.
\<close>

theorem alerts_broadcast_filter:
  "emitted (snd (post_alerts e key apiKey alerts s))
     = emitted s @ emitted_by s (snd (post_alerts e key apiKey alerts s))
   \<and> emitted_by s (snd (post_alerts e key apiKey alerts s))
       = map system_alert_event
           (filter is_broadcast_level (stored_by s (snd (post_alerts e key apiKey alerts s))))
   \<and> (\<forall>a \<in> set (stored_by s (snd (post_alerts e key apiKey alerts s))).
        system_alert_event a \<in> set (emitted_by s (snd (post_alerts e key apiKey alerts s)))
          \<longleftrightarrow> level a = ''ERROR'' \<or> level a = ''CRITICAL'')
   \<and> (piAuth key apiKey = None \<and> alerts = Some as \<and> list_all valid_alert as \<longrightarrow>
        stored_by s (snd (post_alerts e key apiKey alerts s)) = map (to_alert (now e)) as)"
proof -
  let ?s' = "snd (post_alerts e key apiKey alerts s)"
  have inj: "inj system_alert_event"
    by (rule injI) (simp add: system_alert_event_def)
  have 0: "emitted ?s' = emitted s @ map system_alert_event
         (filter is_broadcast_level (stored_by s ?s'))"
    using post_alerts_cases [of e key apiKey alerts s]
    by (auto simp: stored_by_def broadcast_alerts_emitted broadcast_alerts_frame)
  have 1: "emitted_by s ?s'
      = map system_alert_event (filter is_broadcast_level (stored_by s ?s'))"
    unfolding emitted_by_def by (subst 0) simp
  have 2: "\<forall>a \<in> set (stored_by s ?s').
        system_alert_event a \<in> set (emitted_by s ?s')
          \<longleftrightarrow> level a = ''ERROR'' \<or> level a = ''CRITICAL''"
    unfolding 1 using inj
    by (auto simp: is_broadcast_level_def inj_image_mem_iff)
  have 3: "piAuth key apiKey = None \<and> alerts = Some as \<and> list_all valid_alert as \<longrightarrow>
        stored_by s ?s' = map (to_alert (now e)) as"
    by (simp add: post_alerts_def Let_def stored_by_def broadcast_alerts_frame)
  show ?thesis using 0 1 2 3 by simp
qed

text \<open>
  A batch with one alert of each level: the two broadcasts are the \<open>CRITICAL\<close> and the
  \<open>ERROR\<close> one.
\<close>

theorem alerts_broadcast_filter_witness:
  "piAuth (Some ''k3y'') (Some ''k3y'') = None \<and> list_all valid_alert sample_alerts
   \<and> emitted (snd (post_alerts pi_up (Some ''k3y'') (Some ''k3y'') (Some sample_alerts) farm))
       = [system_alert_event
            \<lparr>level = ''CRITICAL'', message = ''pump stuck'', source = ''pi'',
              acknowledged = False, acknowledgedBy = None, alert_time = 100\<rparr>,
          system_alert_event
            \<lparr>level = ''ERROR'', message = ''sensor lost'', source = ''pi'',
              acknowledged = False, acknowledgedBy = None, alert_time = 9\<rparr>]"
proof -
  have p: "piAuth (Some ''k3y'') (Some ''k3y'') = None" by (simp add: piAuth_def)
  have v: "list_all valid_alert sample_alerts"
    by (simp add: sample_alerts_def valid_alert_def level_enum_def)
  note T = alerts_broadcast_filter [of pi_up "Some ''k3y''" "Some ''k3y''" "Some sample_alerts"
      farm sample_alerts]
  have st: "stored_by farm (snd (post_alerts pi_up (Some ''k3y'') (Some ''k3y'')
      (Some sample_alerts) farm)) = map (to_alert (now pi_up)) sample_alerts"
    using T p v by blast
  have e: "emitted (snd (post_alerts pi_up (Some ''k3y'') (Some ''k3y'') (Some sample_alerts) farm))
       = emitted farm @ map system_alert_event
           (filter is_broadcast_level (map (to_alert (now pi_up)) sample_alerts))"
    using T st by simp
  show ?thesis
    unfolding e using p v
    by (simp add: sample_alerts_def to_alert_def is_broadcast_level_def pi_up_def farm_def)
qed

section \<open>Registration\<close>








text \<open>
  Four steps of a registration with nothing in between are the handler served alone.
\<close>

lemma register_uninterrupted:
  "run_schedule [0, 0, 0, 0] [(e, Received body)] s
     = ([(e, Answered (fst (register e body s)))], snd (register e body s))"
  by (auto simp: reg_step_def register_def Let_def reg_answer_def split: sum.splits)

















text \<open>The run of the example, evaluated: the head admin is the first account only.\<close>

lemma example_run_roles:
  "map created_head_admin
     (fst (run_calls [Register pi_up eve_body, AdminCall Delete (Some 1) 1,
                      Register pi_up frank_body] empty_store))
     = [True, False, False]
   \<and> map urole
       (users (snd (run_calls [Register pi_up eve_body, AdminCall Delete (Some 1) 1,
                               Register pi_up frank_body] empty_store)))
     = [RoleHeadAdmin, RoleUser]"
  by (simp add: register_def reg_check_def reg_create_def reg_answer_def eve_body_def
      frank_body_def empty_store_def pi_up_def
      register_role_def succeed_def failure_def log_activity_def Let_def created_head_admin_def
      toSafeObject_def trim_def lowercase_def is_space_def fresh_id_def admin_action_def
      delete_user_def admin_gate_def protect_def adminOnly_def isAdmin_def findById_def)


end
